theory Spec2Isabelle
  imports Complex_Main "HOL-Library.Sublist"
begin

section \<open>Python values and the library interface\<close>

text \<open>
  Both scripts are glue around Pillow and \<^verbatim>\<open>pathlib\<close>. The library calls are kept as
  parameters: a record of functions over an abstract world \<^typ>\<open>'w\<close> (the file system) and an
  abstract image handle \<^typ>\<open>'i\<close>. A call that raises returns the exception as a value. The
  exceptions are instances of Python's \<^verbatim>\<open>Exception\<close>, which is what library calls raise;
  \<^verbatim>\<open>print\<close> is taken to succeed and appends to the event list.
\<close>

datatype py_exception = Exception string

text \<open>
  \<^verbatim>\<open>Path(s)\<close> and \<^verbatim>\<open>p / name\<close> are kept symbolic: the library functions of the
  environment interpret them.
\<close>

datatype path = Path string | Slash path string

type_synonym dims = "int \<times> int"

record ('w, 'i) lib =
  path_exists :: "'w \<Rightarrow> path \<Rightarrow> bool"
  path_mkdir :: "'w \<Rightarrow> path \<Rightarrow> py_exception option \<times> 'w"
  image_open :: "'w \<Rightarrow> path \<Rightarrow> py_exception + 'i"
  image_size :: "'i \<Rightarrow> dims"
  image_resize :: "'w \<Rightarrow> 'i \<Rightarrow> dims \<Rightarrow> py_exception + 'i"
  image_save :: "'w \<Rightarrow> 'i \<Rightarrow> path \<Rightarrow> py_exception option \<times> 'w"

text \<open>
  \<^item> \<open>path_exists\<close>: \<^verbatim>\<open>p.exists()\<close>;
  \<^item> \<open>path_mkdir\<close>: \<^verbatim>\<open>p.mkdir(parents=True, exist_ok=True)\<close>; it may raise and may
    have created some parents by then, so it returns the world in both cases;
  \<^item> \<open>image_open\<close>: \<^verbatim>\<open>Image.open(p)\<close>;
  \<^item> \<open>image_size\<close>: \<^verbatim>\<open>img.size\<close>;
  \<^item> \<open>image_resize\<close>: \<^verbatim>\<open>img.resize((w, h), Image.Resampling.LANCZOS)\<close>; it reads the
    pixel data of a lazily opened file, so it takes the world;
  \<^item> \<open>image_save\<close>: \<^verbatim>\<open>img.save(p, 'PNG', optimize=True)\<close>.
\<close>

section \<open>resize-screenshots.py\<close>

text \<open>The lines the script prints, with their fields, and the library calls it makes.\<close>

datatype msg =
    MsgFileNotFound path
  | MsgLoaded path int int
  | MsgErrorLoading py_exception
  | MsgCreated path int int
  | MsgWrongSize path dims
  | MsgErrorCreating path py_exception
  | MsgSummary nat nat
  | MsgOutputDir path
  | MsgUsage
  | MsgUsageItem string int int
  | MsgBanner string string

datatype event =
    Print msg
  | Exists path
  | Open path
  | Mkdir path
  | Resize dims
  | Save path

datatype exit_status = SysExit int | Traceback py_exception

text \<open>The dictionary \<^verbatim>\<open>SCREENSHOT_SIZES\<close>, in insertion order (the order of iteration).\<close>

definition SCREENSHOT_SIZES :: "(string \<times> dims) list" where
  "SCREENSHOT_SIZES =
    [(''iphone_67_portrait'', (1284, 2778)),
     (''iphone_67_landscape'', (2778, 1284)),
     (''iphone_65_portrait'', (1242, 2688)),
     (''iphone_65_landscape'', (2688, 1242))]"

definition default_output_dir :: string where
  "default_output_dir = ''assets/upload-store/real-screenshots''"

text \<open>
  One iteration of the loop of \<^verbatim>\<open>resize_screenshot\<close> (lines 45 to 61): the state is the
  success counter, the world and the events so far. Every exception raised inside the
  \<^verbatim>\<open>try\<close> is caught by \<^verbatim>\<open>except Exception\<close> and printed.
\<close>

definition resize_one ::
  "('w, 'i) lib \<Rightarrow> 'i \<Rightarrow> path \<Rightarrow> string \<Rightarrow> string \<times> dims \<Rightarrow>
   nat \<times> 'w \<times> event list \<Rightarrow> nat \<times> 'w \<times> event list" where
  "resize_one L img output_dir view_name entry st =
    (case entry of (size_name, (width, height)) \<Rightarrow>
     case st of (success_count, w, evs) \<Rightarrow>
      let output_path = Slash output_dir (size_name @ ''_'' @ view_name @ ''.png'') in
      (case image_resize L w img (width, height) of
         Inl e \<Rightarrow>
           (success_count, w,
            evs @ [Resize (width, height), Print (MsgErrorCreating output_path e)])
       | Inr resized \<Rightarrow>
          (case image_save L w resized output_path of
             (Some e, w') \<Rightarrow>
               (success_count, w',
                evs @ [Resize (width, height), Save output_path,
                       Print (MsgErrorCreating output_path e)])
           | (None, w') \<Rightarrow>
              (case image_open L w' output_path of
                 Inl e \<Rightarrow>
                   (success_count, w',
                    evs @ [Resize (width, height), Save output_path, Open output_path,
                           Print (MsgErrorCreating output_path e)])
               | Inr verify \<Rightarrow>
                   if image_size L verify = (width, height)
                   then (success_count + 1, w',
                         evs @ [Resize (width, height), Save output_path, Open output_path,
                                Print (MsgCreated output_path width height)])
                   else (success_count, w',
                         evs @ [Resize (width, height), Save output_path, Open output_path,
                                Print (MsgWrongSize output_path (image_size L verify))])))))"

fun resize_loop ::
  "('w, 'i) lib \<Rightarrow> 'i \<Rightarrow> path \<Rightarrow> string \<Rightarrow> (string \<times> dims) list \<Rightarrow>
   nat \<times> 'w \<times> event list \<Rightarrow> nat \<times> 'w \<times> event list" where
  "resize_loop L img output_dir view_name [] st = st"
| "resize_loop L img output_dir view_name (entry # rest) st =
     resize_loop L img output_dir view_name rest
       (resize_one L img output_dir view_name entry st)"

text \<open>
  Lines 36 to 39: \<^verbatim>\<open>if output_dir:\<close> is false for \<^verbatim>\<open>None\<close> and for the empty string.
\<close>

definition resolve_output_dir :: "string option \<Rightarrow> path" where
  "resolve_output_dir output_dir =
    (case output_dir of
       None \<Rightarrow> Path default_output_dir
     | Some d \<Rightarrow> if d \<noteq> [] then Path d else Path default_output_dir)"

text \<open>
  \<^verbatim>\<open>resize_screenshot(input_path, output_dir, view_name)\<close>. The result is the returned
  boolean, or the exception that leaves the function: \<^verbatim>\<open>mkdir\<close> is called outside any
  \<^verbatim>\<open>try\<close>.
\<close>

definition resize_screenshot ::
  "('w, 'i) lib \<Rightarrow> string \<Rightarrow> string option \<Rightarrow> string \<Rightarrow> 'w \<Rightarrow>
   (py_exception + bool) \<times> 'w \<times> event list" where
  "resize_screenshot L input_path0 output_dir0 view_name w =
    (let input_path = Path input_path0 in
     if \<not> path_exists L w input_path
     then (Inr False, w, [Exists input_path, Print (MsgFileNotFound input_path)])
     else
       (case image_open L w input_path of
          Inl e \<Rightarrow>
            (Inr False, w, [Exists input_path, Open input_path, Print (MsgErrorLoading e)])
        | Inr img \<Rightarrow>
            let loaded = [Exists input_path, Open input_path,
                          Print (MsgLoaded input_path (fst (image_size L img))
                                   (snd (image_size L img)))];
                output_dir = resolve_output_dir output_dir0
            in
            (case path_mkdir L w output_dir of
               (Some e, w1) \<Rightarrow> (Inl e, w1, loaded @ [Mkdir output_dir])
             | (None, w1) \<Rightarrow>
                (case resize_loop L img output_dir view_name SCREENSHOT_SIZES
                        (0, w1, loaded @ [Mkdir output_dir]) of
                   (success_count, w2, evs) \<Rightarrow>
                     (Inr (success_count = length SCREENSHOT_SIZES), w2,
                      evs @ [Print (MsgSummary success_count (length SCREENSHOT_SIZES)),
                             Print (MsgOutputDir output_dir)])))))"

text \<open>Lines 78 and 79: the optional arguments of the command line and their defaults.\<close>

definition cli_view_name :: "string list \<Rightarrow> string" where
  "cli_view_name argv = (if length argv > 2 then argv ! 2 else ''screenshot'')"

definition cli_output_dir :: "string list \<Rightarrow> string option" where
  "cli_output_dir argv = (if length argv > 3 then Some (argv ! 3) else None)"

text \<open>
  \<^verbatim>\<open>main()\<close> over \<^verbatim>\<open>sys.argv\<close>. An exception that leaves \<^verbatim>\<open>resize_screenshot\<close> is not
  caught here either, and ends the process with a traceback.
\<close>

definition main :: "('w, 'i) lib \<Rightarrow> string list \<Rightarrow> 'w \<Rightarrow> exit_status \<times> 'w \<times> event list" where
  "main L argv w =
    (if length argv < 2
     then (SysExit 1, w,
           Print MsgUsage # map (\<lambda>(size_name, (w, h)). Print (MsgUsageItem size_name w h))
                              SCREENSHOT_SIZES)
     else
       let input_file = argv ! 1;
           view_name = cli_view_name argv;
           output_dir = cli_output_dir argv
       in
       (case resize_screenshot L input_file output_dir view_name w of
          (Inl e, w', evs) \<Rightarrow> (Traceback e, w', Print (MsgBanner input_file view_name) # evs)
        | (Inr success, w', evs) \<Rightarrow>
            (SysExit (if success then 0 else 1), w',
             Print (MsgBanner input_file view_name) # evs)))"

section \<open>generate-store-assets.py\<close>

subsection \<open>Canvas, colours and arithmetic\<close>

text \<open>
  A Pillow image is modelled by what the script can observe of it: its mode, its size, its
  background and the drawing calls issued on it, in order. Drawing and measuring calls are
  taken to succeed with every font; \<^verbatim>\<open>Image.new\<close> raises on a negative size.
\<close>

type_synonym colour = "nat \<times> nat \<times> nat"

type_synonym box = "int \<times> int \<times> int \<times> int"

datatype 'f draw_op =
    Rectangle box colour
  | Text "int \<times> int" string 'f colour
  | Line "(int \<times> int) list" colour int

record 'f image =
  img_mode :: string
  img_size :: dims
  img_background :: colour
  img_ops :: "'f draw_op list"

text \<open>The dictionary \<^verbatim>\<open>COLORS\<close>; the script reads it with literal keys only.\<close>

definition COLORS_white :: colour where "COLORS_white = (255, 255, 255)"
definition COLORS_black :: colour where "COLORS_black = (0, 0, 0)"
definition COLORS_aquamarine :: colour where "COLORS_aquamarine = (0, 255, 209)"
definition COLORS_orange :: colour where "COLORS_orange = (255, 61, 0)"
definition COLORS_gray :: colour where "COLORS_gray = (128, 128, 128)"
definition COLORS_light_gray :: colour where "COLORS_light_gray = (240, 240, 240)"

text \<open>
  The device table of this script (it has the name \<^verbatim>\<open>SCREENSHOT_SIZES\<close> there too).
\<close>

definition SCREENSHOT_SIZES_assets :: "(string \<times> dims) list" where
  "SCREENSHOT_SIZES_assets =
    [(''iphone_67'', (1290, 2796)),
     (''iphone_65'', (1242, 2688)),
     (''iphone_55'', (1242, 2208)),
     (''ipad_129'', (2048, 2732)),
     (''ipad_11'', (1668, 2388))]"

text \<open>
  \<^verbatim>\<open>int(n * 0.12)\<close> is \<open>int_times n 12 100\<close>: the decimal literal is read as the fraction
  it denotes, and \<^verbatim>\<open>int\<close> truncates towards zero. \<^verbatim>\<open>int((i / 9) * n)\<close> is
  \<open>int_times n i 9\<close>. The denominators are positive.
\<close>

definition int_times :: "int \<Rightarrow> int \<Rightarrow> int \<Rightarrow> int" where
  "int_times n num den =
    (if 0 \<le> n * num then (n * num) div den else - ((- (n * num)) div den))"

definition and_then ::
  "py_exception + 'a \<Rightarrow> ('a \<Rightarrow> py_exception + 'b) \<Rightarrow> py_exception + 'b" where
  "and_then r k = (case r of Inl e \<Rightarrow> Inl e | Inr x \<Rightarrow> k x)"

text \<open>A \<^verbatim>\<open>for\<close> loop whose body may raise: the first exception ends it.\<close>

fun for_each ::
  "('a \<Rightarrow> 's \<Rightarrow> py_exception + 's) \<Rightarrow> 'a list \<Rightarrow> 's \<Rightarrow> py_exception + 's" where
  "for_each body [] s = Inr s"
| "for_each body (x # xs) s = and_then (body x s) (for_each body xs)"

definition image_new :: "string \<Rightarrow> dims \<Rightarrow> colour \<Rightarrow> py_exception + 'f image" where
  "image_new mode sz colour =
    (if fst sz < 0 \<or> snd sz < 0 then Inl (Exception ''ValueError'')
     else Inr \<lparr> img_mode = mode, img_size = sz, img_background = colour, img_ops = [] \<rparr>)"

definition draw_rectangle :: "box \<Rightarrow> colour \<Rightarrow> 'f image \<Rightarrow> 'f image" where
  "draw_rectangle xy fill img = img\<lparr> img_ops := img_ops img @ [Rectangle xy fill] \<rparr>"

definition draw_text :: "int \<times> int \<Rightarrow> string \<Rightarrow> 'f \<Rightarrow> colour \<Rightarrow> 'f image \<Rightarrow> 'f image" where
  "draw_text xy txt font fill img = img\<lparr> img_ops := img_ops img @ [Text xy txt font fill] \<rparr>"

definition draw_line :: "(int \<times> int) list \<Rightarrow> colour \<Rightarrow> int \<Rightarrow> 'f image \<Rightarrow> 'f image" where
  "draw_line xy fill width img = img\<lparr> img_ops := img_ops img @ [Line xy fill width] \<rparr>"

subsection \<open>Fonts\<close>

text \<open>
  The font environment: \<^verbatim>\<open>ImageFont.truetype(path, size)\<close>, which raises when the file is
  missing or unreadable, \<^verbatim>\<open>ImageFont.load_default()\<close>, and
  \<^verbatim>\<open>draw.textbbox((0, 0), text, font=font)\<close>.
\<close>

record 'f fonts =
  truetype :: "string \<Rightarrow> int \<Rightarrow> py_exception + 'f"
  load_default :: "'f"
  textbbox :: "'f \<Rightarrow> string \<Rightarrow> box"

text \<open>
  \<^verbatim>\<open>get_font(size, bold)\<close>; the parameter \<^verbatim>\<open>size\<close> is written \<open>sz\<close>. Every
  \<^verbatim>\<open>except:\<close> is bare, so whatever \<^verbatim>\<open>truetype\<close> raises is caught; after the second failure
  control reaches \<^verbatim>\<open>return ImageFont.load_default()\<close>.
\<close>

definition get_font :: "'f fonts \<Rightarrow> int \<Rightarrow> bool \<Rightarrow> py_exception + 'f" where
  "get_font F sz bold =
    (if bold then
       (case truetype F ''/System/Library/Fonts/Supplemental/Arial Bold.ttf'' sz of
          Inr font \<Rightarrow> Inr font
        | Inl e \<Rightarrow>
           (case truetype F ''/Library/Fonts/Arial Bold.ttf'' sz of
              Inr font \<Rightarrow> Inr font
            | Inl e' \<Rightarrow> Inr (load_default F)))
     else
       (case truetype F ''/System/Library/Fonts/Supplemental/Arial.ttf'' sz of
          Inr font \<Rightarrow> Inr font
        | Inl e \<Rightarrow>
           (case truetype F ''/Library/Fonts/Arial.ttf'' sz of
              Inr font \<Rightarrow> Inr font
            | Inl e' \<Rightarrow> Inr (load_default F))))"

definition draw_text_with_shadow ::
  "string \<Rightarrow> int \<times> int \<Rightarrow> 'f \<Rightarrow> colour \<Rightarrow> colour \<Rightarrow> int \<times> int \<Rightarrow> 'f image \<Rightarrow> 'f image" where
  "draw_text_with_shadow txt position font text_color shadow_color shadow_offset img =
    (let shadow_pos = (fst position + fst shadow_offset, snd position + snd shadow_offset);
         img = draw_text shadow_pos txt font shadow_color img
     in draw_text position txt font text_color img)"

definition draw_border :: "box \<Rightarrow> int \<Rightarrow> colour \<Rightarrow> 'f image \<Rightarrow> 'f image" where
  "draw_border bbox width color img =
    (case bbox of (x1, y1, x2, y2) \<Rightarrow>
      let img = draw_rectangle (x1, y1, x2, y1 + width) color img;
          img = draw_rectangle (x1, y2 - width, x2, y2) color img;
          img = draw_rectangle (x1, y1, x1 + width, y2) color img
      in draw_rectangle (x2 - width, y1, x2, y2) color img)"

subsection \<open>The icon\<close>

text \<open>\<^verbatim>\<open>create_app_icon()\<close>; the local \<^verbatim>\<open>size\<close> is written \<open>sz\<close>.\<close>

definition create_app_icon :: "'f fonts \<Rightarrow> py_exception + 'f image" where
  "create_app_icon F =
    (let sz = (1024 :: int) in
     and_then (image_new ''RGB'' (sz, sz) COLORS_aquamarine) (\<lambda>img.
     let img = draw_border (0, 0, sz, sz) (int_times sz 3 100) COLORS_black img;
         font_size = int_times sz 45 100
     in
     and_then (get_font F font_size True) (\<lambda>font.
     let txt = ''RB'';
         (b0, b1, b2, b3) = textbbox F font txt;
         text_width = b2 - b0;
         text_height = b3 - b1;
         x = (sz - text_width) div 2;
         y = (sz - text_height) div 2;
         shadow_offset = int_times sz 2 100
     in
     Inr (draw_text_with_shadow txt (x, y) font COLORS_white COLORS_black
            (shadow_offset, shadow_offset) img))))"

subsection \<open>The four views\<close>

text \<open>
  Strings outside ASCII are given by their UTF-8 bytes: the left arrow, the check mark, the
  warning sign and the bullet.
\<close>

definition LEFT_ARROW :: string where "LEFT_ARROW = [CHR 0xE2, CHR 0x86, CHR 0x90]"
definition CHECK_MARK :: string where "CHECK_MARK = [CHR 0xE2, CHR 0x9C, CHR 0x93]"
definition WARNING_SIGN :: string where "WARNING_SIGN = [CHR 0xE2, CHR 0x9A, CHR 0xA0]"
definition BULLET :: string where "BULLET = [CHR 0xE2, CHR 0x80, CHR 0xA2]"

text \<open>The body of the loop over \<^verbatim>\<open>enumerate(tanks)\<close> (lines 153 to 186).\<close>

definition tank_card ::
  "'f fonts \<Rightarrow> int \<Rightarrow> int \<Rightarrow> int \<Rightarrow> int \<Rightarrow> int \<Rightarrow> int \<Rightarrow> int \<Rightarrow>
   nat \<times> string \<times> string \<times> string \<Rightarrow> 'f image \<Rightarrow> py_exception + 'f image" where
  "tank_card F width height content_y card_height card_spacing card_width card_x item img =
    (case item of (i, (name, volume, status)) \<Rightarrow>
     let card_y = content_y + (card_height + card_spacing) * int i + int_times height 2 100;
         shadow_offset = (5 :: int);
         img = draw_rectangle
                 (card_x + shadow_offset, card_y + shadow_offset,
                  card_x + card_width + shadow_offset, card_y + card_height + shadow_offset)
                 COLORS_black img;
         img = draw_rectangle (card_x, card_y, card_x + card_width, card_y + card_height)
                 COLORS_white img;
         img = draw_border (card_x, card_y, card_x + card_width, card_y + card_height) 3
                 COLORS_black img
     in
     and_then (get_font F (int_times width 5 100) True) (\<lambda>name_font.
     let img = draw_text (card_x + 20, card_y + 15) name name_font COLORS_black img in
     and_then (get_font F (int_times width 35 1000) False) (\<lambda>volume_font.
     let img = draw_text (card_x + 20, card_y + 50) volume volume_font COLORS_gray img in
     if status = ''Active'' then
       let status_x = card_x + card_width - int_times width 15 100;
           status_y = card_y + 15;
           status_w = int_times width 12 100;
           status_h = int_times card_height 25 100;
           img = draw_rectangle (status_x, status_y, status_x + status_w, status_y + status_h)
                   COLORS_aquamarine img;
           img = draw_border (status_x, status_y, status_x + status_w, status_y + status_h) 2
                   COLORS_black img
       in
       and_then (get_font F (int_times width 25 1000) True) (\<lambda>status_font.
       Inr (draw_text (status_x + 5, status_y + 3) ''ACTIVE'' status_font COLORS_black img))
     else Inr img)))"

text \<open>The body of the loop over \<^verbatim>\<open>enumerate(tabs)\<close> (lines 197 to 201).\<close>

definition tab_item ::
  "int \<Rightarrow> int \<Rightarrow> int \<Rightarrow> 'f \<Rightarrow> nat \<times> string \<Rightarrow> 'f image \<Rightarrow> 'f image" where
  "tab_item height tab_y tab_width tab_font item img =
    (case item of (i, tab) \<Rightarrow>
     let tab_x = int i * tab_width;
         img = (if i = 0
                then draw_rectangle (tab_x, tab_y, tab_x + tab_width, height) COLORS_aquamarine img
                else img)
     in draw_text (tab_x + tab_width div 4, tab_y + 10) tab tab_font COLORS_black img)"

definition create_screenshot_tank_list ::
  "'f fonts \<Rightarrow> int \<Rightarrow> int \<Rightarrow> py_exception + 'f image" where
  "create_screenshot_tank_list F width height =
    and_then (image_new ''RGB'' (width, height) COLORS_white) (\<lambda>img.
    let status_height = int_times height 6 100;
        img = draw_rectangle (0, 0, width, status_height) COLORS_white img;
        header_height = int_times height 12 100;
        header_y = status_height;
        img = draw_rectangle (0, header_y, width, header_y + header_height) COLORS_white img
    in
    and_then (get_font F (int_times width 8 100) True) (\<lambda>title_font.
    let title = ''REEFBUDDY'';
        (b0, b1, b2, b3) = textbbox F title_font title;
        title_x = int_times width 5 100;
        title_y = header_y + (header_height - (b3 - b1)) div 2;
        img = draw_text (title_x, title_y) title title_font COLORS_black img;
        badge_x = width - int_times width 25 100;
        badge_y = header_y + int_times header_height 3 10;
        badge_w = int_times width 2 10;
        badge_h = int_times header_height 4 10;
        img = draw_rectangle (badge_x, badge_y, badge_x + badge_w, badge_y + badge_h)
                COLORS_aquamarine img;
        img = draw_border (badge_x, badge_y, badge_x + badge_w, badge_y + badge_h) 3
                COLORS_black img
    in
    and_then (get_font F (int_times width 3 100) True) (\<lambda>badge_font.
    let img = draw_text (badge_x + 10, badge_y + 5) ''FREE'' badge_font COLORS_black img;
        content_y = header_y + header_height;
        content_height = height - content_y - int_times height 1 10;
        card_spacing = int_times height 3 100;
        card_height = int_times content_height 25 100;
        card_width = width - int_times width 1 10;
        card_x = int_times width 5 100;
        tanks = [(''Reef Tank 1'', ''125 gal'', ''Active''),
                 (''Nano Reef'', ''30 gal'', ''Active''),
                 (''Frag Tank'', ''40 gal'', ''Inactive'')]
    in
    and_then (for_each
                (tank_card F width height content_y card_height card_spacing card_width card_x)
                (enumerate 0 tanks) img) (\<lambda>img.
    let tab_y = height - int_times height 1 10;
        tab_height = int_times height 1 10;
        img = draw_rectangle (0, tab_y, width, height) COLORS_white img;
        img = draw_border (0, tab_y, width, height) 3 COLORS_black img;
        tabs = [''TANKS'', ''MEASURE'', ''HISTORY'', ''SETTINGS''];
        tab_width = width div int (length tabs)
    in
    and_then (get_font F (int_times width 25 1000) True) (\<lambda>tab_font.
    Inr (fold (tab_item height tab_y tab_width tab_font) (enumerate 0 tabs) img))))))"

text \<open>The body of the loop over \<^verbatim>\<open>enumerate(params)\<close> (lines 250 to 278).\<close>

definition analysis_card ::
  "'f fonts \<Rightarrow> int \<Rightarrow> int \<Rightarrow> int \<Rightarrow> int \<Rightarrow> int \<Rightarrow>
   nat \<times> string \<times> string \<times> string \<times> colour \<Rightarrow> 'f image \<Rightarrow> py_exception + 'f image" where
  "analysis_card F width scroll_y card_w card_h card_spacing item img =
    (case item of (i, (name, val, status, color)) \<Rightarrow>
     let row = int (i div 2);
         col = int (i mod 2);
         card_x = int_times width 5 100 + col * (card_w + card_spacing);
         card_y = scroll_y + row * (card_h + card_spacing);
         shadow_offset = (5 :: int);
         img = draw_rectangle
                 (card_x + shadow_offset, card_y + shadow_offset,
                  card_x + card_w + shadow_offset, card_y + card_h + shadow_offset)
                 COLORS_black img;
         img = draw_rectangle (card_x, card_y, card_x + card_w, card_y + card_h)
                 COLORS_white img;
         img = draw_border (card_x, card_y, card_x + card_w, card_y + card_h) 3
                 COLORS_black img
     in
     and_then (get_font F (int_times width 35 1000) True) (\<lambda>name_font.
     let img = draw_text (card_x + 15, card_y + 10) name name_font COLORS_black img in
     and_then (get_font F (int_times width 4 100) False) (\<lambda>value_font.
     let img = draw_text (card_x + 15, card_y + 40) val value_font COLORS_gray img in
     and_then (get_font F (int_times width 5 100) True) (\<lambda>status_font.
     Inr (draw_text (card_x + card_w - 40, card_y + 20) status status_font color img)))))"

definition create_screenshot_analysis ::
  "'f fonts \<Rightarrow> int \<Rightarrow> int \<Rightarrow> py_exception + 'f image" where
  "create_screenshot_analysis F width height =
    and_then (image_new ''RGB'' (width, height) COLORS_white) (\<lambda>img.
    let status_height = int_times height 6 100;
        header_height = int_times height 1 10;
        header_y = status_height;
        img = draw_rectangle (0, header_y, width, header_y + header_height) COLORS_white img
    in
    and_then (get_font F (int_times width 4 100) True) (\<lambda>back_font.
    let img = draw_text (int_times width 5 100, header_y + 20) (LEFT_ARROW @ '' BACK'')
                back_font COLORS_black img
    in
    and_then (get_font F (int_times width 6 100) True) (\<lambda>title_font.
    let title = ''AI ANALYSIS'';
        (b0, b1, b2, b3) = textbbox F title_font title;
        title_x = (width - (b2 - b0)) div 2;
        img = draw_text (title_x, header_y + 15) title title_font COLORS_black img;
        content_y = header_y + header_height;
        scroll_y = content_y
    in
    and_then (get_font F (int_times width 5 100) True) (\<lambda>grid_title_font.
    let img = draw_text (int_times width 5 100, scroll_y + 20) ''PARAMETER STATUS''
                grid_title_font COLORS_black img;
        scroll_y = scroll_y + int_times height 8 100;
        params = [(''pH'', ''8.2'', CHECK_MARK, COLORS_aquamarine),
                  (''Alkalinity'', ''8.5 dKH'', CHECK_MARK, COLORS_aquamarine),
                  (''Calcium'', ''420 ppm'', CHECK_MARK, COLORS_aquamarine),
                  (''Nitrate'', ''5 ppm'', WARNING_SIGN, COLORS_orange)];
        card_w = int_times width 42 100;
        card_h = int_times height 12 100;
        card_spacing = int_times width 3 100
    in
    and_then (for_each (analysis_card F width scroll_y card_w card_h card_spacing)
                (enumerate 0 params) img) (\<lambda>img.
    let scroll_y = scroll_y + int_times height 3 10;
        img = draw_text (int_times width 5 100, scroll_y + 20) ''RECOMMENDATIONS''
                grid_title_font COLORS_black img;
        scroll_y = scroll_y + int_times height 8 100;
        rec_card_w = width - int_times width 1 10;
        rec_card_h = int_times height 12 100;
        rec_card_x = int_times width 5 100;
        rec_card_y = scroll_y;
        shadow_offset = (5 :: int);
        img = draw_rectangle
                (rec_card_x + shadow_offset, rec_card_y + shadow_offset,
                 rec_card_x + rec_card_w + shadow_offset, rec_card_y + rec_card_h + shadow_offset)
                COLORS_black img;
        img = draw_rectangle
                (rec_card_x, rec_card_y, rec_card_x + rec_card_w, rec_card_y + rec_card_h)
                COLORS_white img;
        img = draw_border
                (rec_card_x, rec_card_y, rec_card_x + rec_card_w, rec_card_y + rec_card_h) 3
                COLORS_black img
    in
    and_then (get_font F (int_times width 35 1000) False) (\<lambda>rec_font.
    Inr (draw_text (rec_card_x + 15, rec_card_y + 20)
           (BULLET @ '' Increase water changes to reduce nitrate'') rec_font COLORS_black
           img)))))))"

text \<open>The body of the loop over \<^verbatim>\<open>enumerate(params)\<close> (lines 345 to 363).\<close>

definition measurement_input ::
  "'f fonts \<Rightarrow> int \<Rightarrow> int \<Rightarrow> int \<Rightarrow> int \<Rightarrow> int \<Rightarrow> int \<Rightarrow> int \<Rightarrow>
   nat \<times> string \<times> string \<times> string \<Rightarrow> 'f image \<Rightarrow> py_exception + 'f image" where
  "measurement_input F width height scroll_y input_h input_w input_x input_spacing item img =
    (case item of (i, (label, val, target)) \<Rightarrow>
     let input_y = scroll_y + int i * (input_h + input_spacing) in
     and_then (get_font F (int_times width 35 1000) True) (\<lambda>label_font.
     let img = draw_text (input_x, input_y) label label_font COLORS_black img;
         field_y = input_y + int_times height 4 100;
         img = draw_rectangle (input_x, field_y, input_x + input_w, field_y + input_h)
                 COLORS_white img;
         img = draw_border (input_x, field_y, input_x + input_w, field_y + input_h) 3
                 COLORS_black img
     in
     and_then (get_font F (int_times width 4 100) False) (\<lambda>value_font.
     let img = draw_text (input_x + 15, field_y + 15) val value_font COLORS_black img in
     and_then (get_font F (int_times width 25 1000) False) (\<lambda>target_font.
     Inr (draw_text (input_x, field_y + input_h + 5) target target_font COLORS_gray img)))))"

definition create_screenshot_measurement ::
  "'f fonts \<Rightarrow> int \<Rightarrow> int \<Rightarrow> py_exception + 'f image" where
  "create_screenshot_measurement F width height =
    and_then (image_new ''RGB'' (width, height) COLORS_white) (\<lambda>img.
    let status_height = int_times height 6 100;
        header_height = int_times height 1 10;
        header_y = status_height;
        img = draw_rectangle (0, header_y, width, header_y + header_height) COLORS_white img
    in
    and_then (get_font F (int_times width 6 100) True) (\<lambda>title_font.
    let title = ''ENTER MEASUREMENTS'';
        (b0, b1, b2, b3) = textbbox F title_font title;
        title_x = (width - (b2 - b0)) div 2;
        img = draw_text (title_x, header_y + 15) title title_font COLORS_black img;
        content_y = header_y + header_height;
        scroll_y = content_y + int_times height 2 100;
        params = [(''pH'', ''8.2'', ''Target: 8.1-8.4''),
                  (''Alkalinity (dKH)'', ''8.5'', ''Target: 8-12 dKH''),
                  (''Calcium (ppm)'', ''420'', ''Target: 400-450 ppm''),
                  (''Magnesium (ppm)'', ''1350'', ''Target: 1300-1400 ppm'')];
        input_h = int_times height 8 100;
        input_w = width - int_times width 1 10;
        input_x = int_times width 5 100;
        input_spacing = int_times height 2 100
    in
    and_then (for_each
                (measurement_input F width height scroll_y input_h input_w input_x input_spacing)
                (enumerate 0 params) img) (\<lambda>img.
    let button_y = scroll_y + int (length params) * (input_h + input_spacing)
                     + int_times height 5 100;
        button_h = int_times height 8 100;
        button_w = width - int_times width 1 10;
        button_x = int_times width 5 100;
        shadow_offset = (5 :: int);
        img = draw_rectangle
                (button_x + shadow_offset, button_y + shadow_offset,
                 button_x + button_w + shadow_offset, button_y + button_h + shadow_offset)
                COLORS_black img;
        img = draw_rectangle (button_x, button_y, button_x + button_w, button_y + button_h)
                COLORS_aquamarine img;
        img = draw_border (button_x, button_y, button_x + button_w, button_y + button_h) 3
                COLORS_black img
    in
    and_then (get_font F (int_times width 45 1000) True) (\<lambda>button_font.
    let button_text = ''ANALYZE PARAMETERS'';
        (c0, c1, c2, c3) = textbbox F button_font button_text;
        button_text_x = button_x + (button_w - (c2 - c0)) div 2;
        button_text_y = button_y + (button_h - (c3 - c1)) div 2
    in
    Inr (draw_text (button_text_x, button_text_y) button_text button_font COLORS_black
           img)))))"

text \<open>The body of the loop over \<^verbatim>\<open>enumerate(measurements)\<close> (lines 457 to 471).\<close>

definition chart_item ::
  "'f fonts \<Rightarrow> int \<Rightarrow> int \<Rightarrow> int \<Rightarrow> int \<Rightarrow> int \<Rightarrow> int \<Rightarrow>
   nat \<times> string \<times> string \<Rightarrow> 'f image \<Rightarrow> py_exception + 'f image" where
  "chart_item F width list_y item_h item_spacing chart_x chart_w item img =
    (case item of (i, (date, params)) \<Rightarrow>
     let item_y = list_y + int i * (item_h + item_spacing);
         item_w = chart_w;
         img = draw_rectangle (chart_x, item_y, chart_x + item_w, item_y + item_h)
                 COLORS_white img;
         img = draw_border (chart_x, item_y, chart_x + item_w, item_y + item_h) 2
                 COLORS_black img
     in
     and_then (get_font F (int_times width 3 100) True) (\<lambda>date_font.
     let img = draw_text (chart_x + 10, item_y + 10) date date_font COLORS_black img in
     and_then (get_font F (int_times width 25 1000) False) (\<lambda>param_font.
     Inr (draw_text (chart_x + 10, item_y + 35) params param_font COLORS_gray img))))"

definition create_screenshot_chart ::
  "'f fonts \<Rightarrow> int \<Rightarrow> int \<Rightarrow> py_exception + 'f image" where
  "create_screenshot_chart F width height =
    and_then (image_new ''RGB'' (width, height) COLORS_white) (\<lambda>img.
    let status_height = int_times height 6 100;
        header_height = int_times height 1 10;
        header_y = status_height;
        img = draw_rectangle (0, header_y, width, header_y + header_height) COLORS_white img
    in
    and_then (get_font F (int_times width 6 100) True) (\<lambda>title_font.
    let title = ''HISTORY & TRENDS'';
        (b0, b1, b2, b3) = textbbox F title_font title;
        title_x = (width - (b2 - b0)) div 2;
        img = draw_text (title_x, header_y + 15) title title_font COLORS_black img;
        content_y = header_y + header_height;
        chart_y = content_y + int_times height 3 100;
        chart_h = int_times height 4 10;
        chart_w = width - int_times width 1 10;
        chart_x = int_times width 5 100;
        img = draw_rectangle (chart_x, chart_y, chart_x + chart_w, chart_y + chart_h)
                COLORS_white img;
        img = draw_border (chart_x, chart_y, chart_x + chart_w, chart_y + chart_h) 3
                COLORS_black img;
        line_points = map (\<lambda>i. (chart_x + int_times chart_w (int i) 9,
                                 chart_y + chart_h - int_times chart_h (3 + int (i mod 3)) 10))
                        [0 ..< 10];
        img = fold (\<lambda>i. draw_line [line_points ! i, line_points ! (i + 1)] COLORS_black 4)
                [0 ..< length line_points - 1] img
    in
    and_then (get_font F (int_times width 25 1000) False) (\<lambda>label_font.
    let img = draw_text (chart_x + 10, chart_y + 10) ''pH'' label_font COLORS_black img;
        img = draw_text (chart_x + 10, chart_y + chart_h - 20) ''8.0'' label_font
                COLORS_gray img;
        img = draw_text (chart_x + chart_w - 50, chart_y + chart_h - 20) ''8.4'' label_font
                COLORS_gray img;
        list_y = chart_y + chart_h + int_times height 5 100
    in
    and_then (get_font F (int_times width 4 100) True) (\<lambda>list_title_font.
    let img = draw_text (chart_x, list_y) ''RECENT MEASUREMENTS'' list_title_font
                COLORS_black img;
        list_y = list_y + int_times height 6 100;
        measurements = [(''Jan 15, 2024'', ''pH: 8.2 | Alk: 8.5 | Ca: 420''),
                        (''Jan 12, 2024'', ''pH: 8.1 | Alk: 8.3 | Ca: 415''),
                        (''Jan 10, 2024'', ''pH: 8.3 | Alk: 8.4 | Ca: 425'')];
        item_h = int_times height 6 100;
        item_spacing = int_times height 2 100
    in
    for_each (chart_item F width list_y item_h item_spacing chart_x chart_w)
      (enumerate 0 measurements) img))))"

subsection \<open>The rendering loop of main\<close>

text \<open>
  The lists \<^verbatim>\<open>screenshot_configs\<close> (its third component is never used) and
  \<^verbatim>\<open>screenshot_views\<close> of \<^verbatim>\<open>main\<close>.
\<close>

definition screenshot_configs :: "(string \<times> string) list" where
  "screenshot_configs =
    [(''iphone_67'', ''iPhone 6.7\"''),
     (''iphone_65'', ''iPhone 6.5\"''),
     (''iphone_55'', ''iPhone 5.5\"''),
     (''ipad_129'', ''iPad Pro 12.9\"''),
     (''ipad_11'', ''iPad Pro 11\"'')]"

definition screenshot_views ::
  "(string \<times> string \<times> ('f fonts \<Rightarrow> int \<Rightarrow> int \<Rightarrow> py_exception + 'f image)) list" where
  "screenshot_views =
    [(''tank-list'', ''Tank List'', create_screenshot_tank_list),
     (''analysis'', ''Analysis'', create_screenshot_analysis),
     (''measurement'', ''Measurement Entry'', create_screenshot_measurement),
     (''chart'', ''History & Charts'', create_screenshot_chart)]"

text \<open>
  Lines 503 to 514 of \<^verbatim>\<open>main\<close>: for every device and every view, the image rendered and
  the file name it is saved under. The state of the loop is the list of files saved so far;
  the directory calls and \<^verbatim>\<open>save\<close> itself are taken to succeed. A device key
  missing from the table raises \<^verbatim>\<open>KeyError\<close>.
\<close>

definition render_view ::
  "'f fonts \<Rightarrow> string \<Rightarrow> int \<Rightarrow> int \<Rightarrow>
   string \<times> string \<times> ('f fonts \<Rightarrow> int \<Rightarrow> int \<Rightarrow> py_exception + 'f image) \<Rightarrow>
   (string \<times> string \<times> 'f image) list \<Rightarrow> py_exception + (string \<times> string \<times> 'f image) list" where
  "render_view F device_key width height view saved =
    (case view of (view_key, view_name, view_func) \<Rightarrow>
     and_then (view_func F width height) (\<lambda>screenshot.
     let filename = device_key @ ''_'' @ view_key @ ''.png'' in
     Inr (saved @ [(device_key, filename, screenshot)])))"

definition render_device ::
  "'f fonts \<Rightarrow> string \<times> string \<Rightarrow>
   (string \<times> string \<times> 'f image) list \<Rightarrow> py_exception + (string \<times> string \<times> 'f image) list" where
  "render_device F config saved =
    (case config of (device_key, device_name) \<Rightarrow>
     (case map_of SCREENSHOT_SIZES_assets device_key of
        None \<Rightarrow> Inl (Exception ''KeyError'')
      | Some (width, height) \<Rightarrow>
          for_each (render_view F device_key width height) screenshot_views saved))"

definition main_screenshots :: "'f fonts \<Rightarrow> py_exception + (string \<times> string \<times> 'f image) list" where
  "main_screenshots F = for_each (render_device F) screenshot_configs []"

section \<open>Observations on a run of the resizer\<close>

text \<open>
  The report the loop prints for a target: created and verified, written with another size
  (the warning), or failed with an exception.
\<close>

datatype report = Created | WrongSize | Failed

fun reports :: "event list \<Rightarrow> (path \<times> report) list" where
  "reports [] = []"
| "reports (Print (MsgCreated p _ _) # es) = (p, Created) # reports es"
| "reports (Print (MsgWrongSize p _) # es) = (p, WrongSize) # reports es"
| "reports (Print (MsgErrorCreating p _) # es) = (p, Failed) # reports es"
| "reports (_ # es) = reports es"

text \<open>The sizes passed to \<^verbatim>\<open>img.resize\<close>, in order.\<close>

fun resize_calls :: "event list \<Rightarrow> dims list" where
  "resize_calls [] = []"
| "resize_calls (Resize d # es) = d # resize_calls es"
| "resize_calls (_ # es) = resize_calls es"

text \<open>The calls that do work on the output: directory creation, resizing, saving.\<close>

fun writes :: "event list \<Rightarrow> event list" where
  "writes [] = []"
| "writes (Mkdir p # es) = Mkdir p # writes es"
| "writes (Resize d # es) = Resize d # writes es"
| "writes (Save p # es) = Save p # writes es"
| "writes (_ # es) = writes es"

definition count_report :: "report \<Rightarrow> event list \<Rightarrow> nat" where
  "count_report r evs = length (filter (\<lambda>x. snd x = r) (reports evs))"

text \<open>The \<^verbatim>\<open>output_path\<close> of a table entry (line 46).\<close>

definition output_path_of :: "path \<Rightarrow> string \<Rightarrow> string \<times> dims \<Rightarrow> path" where
  "output_path_of output_dir view_name entry =
     Slash output_dir (fst entry @ ''_'' @ view_name @ ''.png'')"

fun save_calls :: "event list \<Rightarrow> path list" where
  "save_calls [] = []"
| "save_calls (Save p # es) = p # save_calls es"
| "save_calls (_ # es) = save_calls es"

text \<open>No \<^verbatim>\<open>save\<close> happens before the first \<^verbatim>\<open>mkdir\<close> of the directory \<open>D\<close>.\<close>

fun mkdir_before_saves :: "path \<Rightarrow> event list \<Rightarrow> bool" where
  "mkdir_before_saves D [] = True"
| "mkdir_before_saves D (Mkdir p # es) = (if p = D then True else mkdir_before_saves D es)"
| "mkdir_before_saves D (Save p # es) = False"
| "mkdir_before_saves D (_ # es) = mkdir_before_saves D es"

text \<open>
  The \<^verbatim>\<open>try\<close> block of one target, read two ways: the written output is reopened with
  exactly the requested size; the block raises.
\<close>

definition verifies :: "('w, 'i) lib \<Rightarrow> 'i \<Rightarrow> path \<Rightarrow> dims \<Rightarrow> 'w \<Rightarrow> bool" where
  "verifies L img output_path d w =
    (case image_resize L w img d of
       Inl e \<Rightarrow> False
     | Inr resized \<Rightarrow>
        (case image_save L w resized output_path of
           (Some e, w') \<Rightarrow> False
         | (None, w') \<Rightarrow>
            (case image_open L w' output_path of
               Inl e \<Rightarrow> False
             | Inr verify \<Rightarrow> image_size L verify = d)))"

definition try_raises :: "('w, 'i) lib \<Rightarrow> 'i \<Rightarrow> path \<Rightarrow> dims \<Rightarrow> 'w \<Rightarrow> py_exception option" where
  "try_raises L img output_path d w =
    (case image_resize L w img d of
       Inl e \<Rightarrow> Some e
     | Inr resized \<Rightarrow>
        (case image_save L w resized output_path of
           (Some e, w') \<Rightarrow> Some e
         | (None, w') \<Rightarrow>
            (case image_open L w' output_path of
               Inl e \<Rightarrow> Some e
             | Inr verify \<Rightarrow> None)))"

text \<open>
  What Pillow promises: \<^verbatim>\<open>resize\<close> returns an image of the requested size, and a saved PNG
  that can be reopened has the size of the image that was saved.
\<close>

definition pil_contract :: "('w, 'i) lib \<Rightarrow> bool" where
  "pil_contract L \<longleftrightarrow>
     (\<forall>w img d r. image_resize L w img d = Inr r \<longrightarrow> image_size L r = d) \<and>
     (\<forall>w img p w' v. image_save L w img p = (None, w') \<longrightarrow> image_open L w' p = Inr v \<longrightarrow>
                     image_size L v = image_size L img)"


section \<open>A small file system to run the resizer on\<close>

text \<open>
  An instance of the library interface: files are images of a given size or text, an image
  handle is its size, and saving to a read-only path raises.
\<close>

datatype demo_file = ImageFile dims | TextFile

record demo_fs =
  fs_files :: "(path \<times> demo_file) list"
  fs_readonly :: "path list"

definition demo_lib :: "(demo_fs, dims) lib" where
  "demo_lib =
    \<lparr> path_exists = (\<lambda>w p. map_of (fs_files w) p \<noteq> None),
      path_mkdir = (\<lambda>w p. (None, w)),
      image_open = (\<lambda>w p. case map_of (fs_files w) p of
                             None \<Rightarrow> Inl (Exception ''FileNotFoundError'')
                           | Some TextFile \<Rightarrow> Inl (Exception ''UnidentifiedImageError'')
                           | Some (ImageFile d) \<Rightarrow> Inr d),
      image_size = (\<lambda>d. d),
      image_resize = (\<lambda>w img d. Inr d),
      image_save = (\<lambda>w img p. if p \<in> set (fs_readonly w)
                               then (Some (Exception ''PermissionError''), w)
                               else (None, w\<lparr>fs_files := (p, ImageFile img) # fs_files w\<rparr>)) \<rparr>"

definition demo_world :: demo_fs where
  "demo_world =
    \<lparr> fs_files = [(Path ''shot.png'', ImageFile (1170, 2532)), (Path ''notes.txt'', TextFile)],
      fs_readonly = [Slash (Path ''out'') ''iphone_65_portrait_home.png''] \<rparr>"

text \<open>
  The same file system with a Pillow that opens every image lazily and fails to decode its
  pixel data: \<^verbatim>\<open>Image.open\<close> returns, and \<^verbatim>\<open>resize\<close> raises on loading.
\<close>

definition truncated_lib :: "(demo_fs, dims) lib" where
  "truncated_lib = demo_lib\<lparr> image_resize := (\<lambda>w img d. Inl (Exception ''OSError'')) \<rparr>"

section \<open>Observations on the asset generator\<close>

text \<open>
  The font chain as the specification words it: an ordered list of candidate paths with one
  resolution function, the first font that loads, else the built-in default.
\<close>

definition font_candidates :: "bool \<Rightarrow> string list" where
  "font_candidates bold =
    (if bold
     then [''/System/Library/Fonts/Supplemental/Arial Bold.ttf'', ''/Library/Fonts/Arial Bold.ttf'']
     else [''/System/Library/Fonts/Supplemental/Arial.ttf'', ''/Library/Fonts/Arial.ttf''])"

fun resolve_font :: "'f fonts \<Rightarrow> string list \<Rightarrow> int \<Rightarrow> 'f" where
  "resolve_font F [] sz = load_default F"
| "resolve_font F (p # ps) sz =
     (case truetype F p sz of Inr font \<Rightarrow> font | Inl e \<Rightarrow> resolve_font F ps sz)"

text \<open>
  Two font environments to run the renderers on: one where no font file loads, one where only
  the second candidate of each chain loads (and only at a positive size).
\<close>

datatype demo_font = DefaultFont | TrueTypeFont string int

definition no_fonts :: "demo_font fonts" where
  "no_fonts =
    \<lparr> truetype = (\<lambda>p sz. Inl (Exception ''OSError'')),
      load_default = DefaultFont,
      textbbox = (\<lambda>font txt. (0, 0, 6 * int (length txt), 11)) \<rparr>"

definition library_fonts :: "demo_font fonts" where
  "library_fonts =
    \<lparr> truetype = (\<lambda>p sz. if p \<in> {''/Library/Fonts/Arial Bold.ttf'', ''/Library/Fonts/Arial.ttf''} \<and> 0 < sz
                          then Inr (TrueTypeFont p sz) else Inl (Exception ''OSError'')),
      load_default = DefaultFont,
      textbbox = (\<lambda>font txt. case font of
                     DefaultFont \<Rightarrow> (0, 0, 6 * int (length txt), 11)
                   | TrueTypeFont p sz \<Rightarrow> (0, 0, sz * int (length txt) div 2, sz)) \<rparr>"

text \<open>A function applied to the value a call returns; an exception is passed on.\<close>

definition on_result :: "('a \<Rightarrow> 'b) \<Rightarrow> py_exception + 'a \<Rightarrow> py_exception + 'b" where
  "on_result f r = (case r of Inl e \<Rightarrow> Inl e | Inr x \<Rightarrow> Inr (f x))"

text \<open>The file names \<^verbatim>\<open>main\<close> saves under, each with the size of its image.\<close>

definition file_sizes :: "(string \<times> string \<times> 'f image) list \<Rightarrow> (string \<times> dims) list" where
  "file_sizes saved = map (\<lambda>(device_key, filename, screenshot). (filename, img_size screenshot)) saved"

definition view_keys :: "string list" where
  "view_keys = [''tank-list'', ''analysis'', ''measurement'', ''chart'']"

text \<open>
  The header band of a view is the rectangle drawn under the comment \<^verbatim>\<open># Header\<close>: the
  second drawing call of the tank list (after the status bar), the first of the other views.
  Its height is the difference of its y coordinates.
\<close>

fun band_height :: "'f draw_op \<Rightarrow> int" where
  "band_height (Rectangle (x0, y0, x1, y1) fill) = y1 - y0"
| "band_height other = 0"

definition header_band_index :: "string \<Rightarrow> nat" where
  "header_band_index view_key = (if view_key = ''tank-list'' then 1 else 0)"

definition header_band :: "string \<Rightarrow> 'f image \<Rightarrow> 'f draw_op" where
  "header_band view_key img = img_ops img ! header_band_index view_key"

definition header_height_of :: "string \<Rightarrow> 'f image \<Rightarrow> int" where
  "header_height_of view_key img = band_height (header_band view_key img)"

text \<open>
  Two font environments are the same for the renderers when they agree on the four candidate
  paths at every size, on the default font and on every text measurement.
\<close>

definition same_font_env :: "'f fonts \<Rightarrow> 'f fonts \<Rightarrow> bool" where
  "same_font_env F F' \<longleftrightarrow>
     (\<forall>bold sz. \<forall>p \<in> set (font_candidates bold). truetype F p sz = truetype F' p sz)
     \<and> load_default F = load_default F'
     \<and> (\<forall>font txt. textbbox F font txt = textbbox F' font txt)"

text \<open>An environment that differs from \<open>no_fonts\<close> only at a path the script never asks for.\<close>

definition dejavu_fonts :: "demo_font fonts" where
  "dejavu_fonts =
    \<lparr> truetype = (\<lambda>p sz. if p = ''/usr/share/fonts/truetype/dejavu/DejaVuSans.ttf''
                          then Inr (TrueTypeFont p sz) else Inl (Exception ''OSError'')),
      load_default = DefaultFont,
      textbbox = (\<lambda>font txt. (0, 0, 6 * int (length txt), 11)) \<rparr>"

text \<open>A call returns an image whose drawing calls start with the given ones.\<close>

definition keeps :: "'f draw_op list \<Rightarrow> py_exception + 'f image \<Rightarrow> bool" where
  "keeps xs r = (case r of Inl e \<Rightarrow> False | Inr img \<Rightarrow> prefix xs (img_ops img))"


section \<open>Lemmas about the resizer loop\<close>

lemma reports_append: "reports (xs @ ys) = reports xs @ reports ys"
  by (induction xs rule: reports.induct) simp_all

lemma resize_calls_append: "resize_calls (xs @ ys) = resize_calls xs @ resize_calls ys"
  by (induction xs rule: resize_calls.induct) simp_all

lemma count_report_append: "count_report r (xs @ ys) = count_report r xs + count_report r ys"
  by (simp add: count_report_def reports_append)

lemma resize_one_calls:
  "resize_calls (snd (snd (resize_one L img output_dir view_name entry st)))
     = resize_calls (snd (snd st)) @ [snd entry]"
  by (cases entry; cases st)
     (simp add: resize_one_def Let_def resize_calls_append split: sum.splits prod.splits option.splits)

lemma resize_one_reports:
  "map fst (reports (snd (snd (resize_one L img output_dir view_name entry st))))
     = map fst (reports (snd (snd st))) @ [output_path_of output_dir view_name entry]"
  by (cases entry; cases st)
     (simp add: resize_one_def Let_def reports_append output_path_of_def
           split: sum.splits prod.splits option.splits)

lemma resize_one_count:
  "fst (resize_one L img output_dir view_name entry st) + count_report Created (snd (snd st))
     = fst st + count_report Created (snd (snd (resize_one L img output_dir view_name entry st)))"
  by (cases entry; cases st)
     (simp add: resize_one_def Let_def reports_append count_report_def
           split: sum.splits prod.splits option.splits)

lemma resize_loop_calls:
  "resize_calls (snd (snd (resize_loop L img output_dir view_name targets st)))
     = resize_calls (snd (snd st)) @ map snd targets"
  by (induction targets arbitrary: st) (simp_all add: resize_one_calls)

lemma resize_loop_reports:
  "map fst (reports (snd (snd (resize_loop L img output_dir view_name targets st))))
     = map fst (reports (snd (snd st))) @ map (output_path_of output_dir view_name) targets"
  by (induction targets arbitrary: st) (simp_all add: resize_one_reports)

lemma resize_loop_count:
  "fst (resize_loop L img output_dir view_name targets st) + count_report Created (snd (snd st))
     = fst st + count_report Created (snd (snd (resize_loop L img output_dir view_name targets st)))"
proof (induction targets arbitrary: st)
  case Nil
  show ?case by simp
next
  case (Cons entry rest)
  from Cons.IH[of "resize_one L img output_dir view_name entry st"]
       resize_one_count[of L img output_dir view_name entry st]
  show ?case by simp
qed

lemma report_partition:
  "count_report Created evs + count_report WrongSize evs + count_report Failed evs
     = length (reports evs)"
  by (induction evs rule: reports.induct) (simp_all add: count_report_def)






lemma mkdir_before_saves_no_save: "save_calls xs = [] \<Longrightarrow> mkdir_before_saves D xs"
  by (induction D xs rule: mkdir_before_saves.induct) simp_all


lemma resize_one_verifies:
  "fst (resize_one L img output_dir view_name entry (c, w, evs))
     = (if verifies L img (output_path_of output_dir view_name entry) (snd entry) w
        then c + 1 else c)"
  by (cases entry)
     (simp add: resize_one_def verifies_def output_path_of_def Let_def
           split: sum.splits prod.splits option.splits)

lemma resize_one_raises:
  "try_raises L img (output_path_of output_dir view_name entry) (snd entry) w = Some e \<Longrightarrow>
   fst (resize_one L img output_dir view_name entry (c, w, evs)) = c \<and>
   last (snd (snd (resize_one L img output_dir view_name entry (c, w, evs))))
     = Print (MsgErrorCreating (output_path_of output_dir view_name entry) e)"
  by (cases entry)
     (auto simp: resize_one_def try_raises_def output_path_of_def Let_def
           split: sum.splits prod.splits option.splits)

lemma writes_append: "writes (xs @ ys) = writes xs @ writes ys"
  by (induction xs rule: writes.induct) simp_all

lemma resize_loop_reports_length:
  "length (reports (snd (snd (resize_loop L img output_dir view_name targets st))))
     = length (reports (snd (snd st))) + length targets"
  using resize_loop_reports[of L img output_dir view_name targets st]
  by (metis length_append length_map)

lemma resize_screenshot_batch:
  assumes "path_exists L w (Path input_path)"
      and "image_open L w (Path input_path) = Inr img"
      and "path_mkdir L w (resolve_output_dir output_dir) = (None, w1)"
      and "resize_loop L img (resolve_output_dir output_dir) view_name SCREENSHOT_SIZES
             (0, w1, [Exists (Path input_path), Open (Path input_path),
                      Print (MsgLoaded (Path input_path) (fst (image_size L img))
                               (snd (image_size L img))),
                      Mkdir (resolve_output_dir output_dir)]) = (n, w2, evs)"
  shows "resize_screenshot L input_path output_dir view_name w
           = (Inr (n = length SCREENSHOT_SIZES), w2,
              evs @ [Print (MsgSummary n (length SCREENSHOT_SIZES)),
                     Print (MsgOutputDir (resolve_output_dir output_dir))])"
  using assms by (simp add: resize_screenshot_def Let_def)




lemma resize_one_created_reopens:
  "resize_one L img output_dir view_name entry (c, w, evs) = (c', w', evs') \<Longrightarrow> c' = c + 1 \<Longrightarrow>
   \<exists>v. image_open L w' (output_path_of output_dir view_name entry) = Inr v
       \<and> image_size L v = snd entry"
  by (cases entry)
     (auto simp: resize_one_def output_path_of_def Let_def
           split: sum.splits prod.splits option.splits if_splits)

lemma resize_one_no_wrong_size:
  "pil_contract L \<Longrightarrow>
   count_report WrongSize (snd (snd (resize_one L img output_dir view_name entry (c, w, evs))))
     = count_report WrongSize evs"
  by (cases entry)
     (auto simp: resize_one_def pil_contract_def count_report_def reports_append Let_def
           split: sum.splits prod.splits option.splits)

lemma resize_loop_no_wrong_size:
  "pil_contract L \<Longrightarrow>
   count_report WrongSize (snd (snd (resize_loop L img output_dir view_name targets st)))
     = count_report WrongSize (snd (snd st))"
proof (induction targets arbitrary: st)
  case Nil
  show ?case by simp
next
  case (Cons entry rest)
  obtain c w evs where st: "st = (c, w, evs)" by (cases st)
  from Cons.IH[OF Cons.prems, of "resize_one L img output_dir view_name entry st"]
       resize_one_no_wrong_size[OF Cons.prems, of img output_dir view_name entry c w evs] st
  show ?case by simp
qed

lemmas demo_simps = demo_lib_def demo_world_def resize_one_def SCREENSHOT_SIZES_def
  count_report_def output_path_of_def Let_def

section \<open>Lemmas about the renderers\<close>

lemma get_font_resolve: "get_font F sz bold = Inr (resolve_font F (font_candidates bold) sz)"
  by (simp add: get_font_def font_candidates_def split: sum.splits)

lemma on_result_simps [simp]:
  "on_result f (Inr x) = Inr (f x)"
  "on_result f (Inl e) = Inl e"
  by (simp_all add: on_result_def)

lemma and_then_Inr [simp]: "and_then (Inr x) k = k x"
  by (simp add: and_then_def)

lemma and_then_Inl [simp]: "and_then (Inl e) k = Inl e"
  by (simp add: and_then_def)

lemma img_size_draw [simp]:
  "img_size (draw_rectangle xy fill img) = img_size img"
  "img_size (draw_text p txt font fill img) = img_size img"
  "img_size (draw_line ps fill w img) = img_size img"
  "img_size (draw_border bbox w fill img) = img_size img"
  "img_size (draw_text_with_shadow txt p font c1 c2 off img) = img_size img"
  by (simp_all add: draw_rectangle_def draw_text_def draw_line_def draw_border_def
        draw_text_with_shadow_def Let_def split: prod.splits)

lemma fold_keeps_size:
  "(\<And>x img. img_size (f x img) = img_size img) \<Longrightarrow> img_size (fold f xs img) = img_size img"
  by (induction xs arbitrary: img) simp_all

lemma for_each_keeps_size:
  assumes "\<And>x s. on_result img_size (body x s) = Inr (img_size s)"
  shows "on_result img_size (for_each body xs s) = Inr (img_size s)"
proof (induction xs arbitrary: s)
  case Nil
  show ?case by simp
next
  case (Cons x xs)
  obtain s' where s': "body x s = Inr s'" "img_size s' = img_size s"
    using assms[of x s] by (cases "body x s") auto
  then show ?case using Cons.IH[of s'] by simp
qed

lemma and_then_keeps_size:
  assumes "on_result img_size r = Inr d"
      and "\<And>s. img_size s = d \<Longrightarrow> on_result img_size (k s) = Inr d"
  shows "on_result img_size (and_then r k) = Inr d"
  using assms by (cases r) auto

lemma tab_item_size [simp]:
  "img_size (tab_item height tab_y tab_width tab_font item img) = img_size img"
  by (simp add: tab_item_def Let_def split: prod.splits)

lemma tank_card_size:
  "on_result img_size
     (tank_card F width height content_y card_height card_spacing card_width card_x item img)
     = Inr (img_size img)"
  by (simp add: tank_card_def get_font_resolve Let_def split: prod.splits)

lemma analysis_card_size:
  "on_result img_size (analysis_card F width scroll_y card_w card_h card_spacing item img)
     = Inr (img_size img)"
  by (simp add: analysis_card_def get_font_resolve Let_def split: prod.splits)

lemma measurement_input_size:
  "on_result img_size
     (measurement_input F width height scroll_y input_h input_w input_x input_spacing item img)
     = Inr (img_size img)"
  by (simp add: measurement_input_def get_font_resolve Let_def split: prod.splits)

lemma chart_item_size:
  "on_result img_size (chart_item F width list_y item_h item_spacing chart_x chart_w item img)
     = Inr (img_size img)"
  by (simp add: chart_item_def get_font_resolve Let_def split: prod.splits)

lemma image_new_size:
  "0 \<le> width \<Longrightarrow> 0 \<le> height \<Longrightarrow>
   image_new mode (width, height) colour
     = Inr \<lparr> img_mode = mode, img_size = (width, height), img_background = colour, img_ops = [] \<rparr>"
  by (simp add: image_new_def)

lemma tank_list_size:
  "0 \<le> width \<Longrightarrow> 0 \<le> height \<Longrightarrow>
   on_result img_size (create_screenshot_tank_list F width height) = Inr (width, height)"
  unfolding create_screenshot_tank_list_def
  by (simp add: image_new_size get_font_resolve Let_def case_prod_beta fold_keeps_size
        and_then_keeps_size for_each_keeps_size tank_card_size del: for_each.simps)

lemma analysis_size:
  "0 \<le> width \<Longrightarrow> 0 \<le> height \<Longrightarrow>
   on_result img_size (create_screenshot_analysis F width height) = Inr (width, height)"
  unfolding create_screenshot_analysis_def
  by (simp add: image_new_size get_font_resolve Let_def case_prod_beta fold_keeps_size
        and_then_keeps_size for_each_keeps_size analysis_card_size del: for_each.simps)

lemma measurement_size:
  "0 \<le> width \<Longrightarrow> 0 \<le> height \<Longrightarrow>
   on_result img_size (create_screenshot_measurement F width height) = Inr (width, height)"
  unfolding create_screenshot_measurement_def
  by (simp add: image_new_size get_font_resolve Let_def case_prod_beta fold_keeps_size
        and_then_keeps_size for_each_keeps_size measurement_input_size del: for_each.simps)

lemma chart_size:
  "0 \<le> width \<Longrightarrow> 0 \<le> height \<Longrightarrow>
   on_result img_size (create_screenshot_chart F width height) = Inr (width, height)"
  unfolding create_screenshot_chart_def
  by (simp add: image_new_size get_font_resolve Let_def case_prod_beta fold_keeps_size
        and_then_keeps_size for_each_keeps_size chart_item_size del: for_each.simps)

lemma view_size:
  assumes "(view_key, view_name, view_func) \<in> set screenshot_views"
      and "0 \<le> width" and "0 \<le> height"
  shows "on_result img_size (view_func F width height) = Inr (width, height)"
  using assms
  by (auto simp: screenshot_views_def tank_list_size analysis_size measurement_size chart_size)

lemma for_each_file_sizes:
  assumes "\<And>x s. x \<in> set xs \<Longrightarrow> on_result file_sizes (body x s) = Inr (file_sizes s @ g x)"
  shows "on_result file_sizes (for_each body xs s) = Inr (file_sizes s @ concat (map g xs))"
  using assms
proof (induction xs arbitrary: s)
  case Nil
  show ?case by simp
next
  case (Cons x xs)
  obtain s' where s': "body x s = Inr s'" "file_sizes s' = file_sizes s @ g x"
    using Cons.prems[of x s] by (cases "body x s") auto
  have "on_result file_sizes (for_each body xs s') = Inr (file_sizes s' @ concat (map g xs))"
    by (rule Cons.IH) (rule Cons.prems, simp)
  then show ?case using s' by simp
qed

lemma render_view_file_sizes:
  assumes "view \<in> set screenshot_views" and "0 \<le> width" and "0 \<le> height"
  shows "on_result file_sizes (render_view F device_key width height view saved)
           = Inr (file_sizes saved @ [(device_key @ ''_'' @ fst view @ ''.png'', (width, height))])"
proof -
  obtain view_key view_name view_func where v: "view = (view_key, view_name, view_func)"
    by (cases view)
  obtain img where img: "view_func F width height = Inr img" "img_size img = (width, height)"
    using view_size[of view_key view_name view_func width height F] assms v
    by (cases "view_func F width height") auto
  show ?thesis
    using img v by (simp add: render_view_def file_sizes_def)
qed

lemma screenshot_view_keys: "map fst screenshot_views = view_keys"
  by (simp add: screenshot_views_def view_keys_def)

lemma render_device_file_sizes:
  fixes F :: "'f fonts"
  assumes "config \<in> set screenshot_configs"
  shows "on_result file_sizes (render_device F config saved)
           = Inr (file_sizes saved @
                  (case map_of SCREENSHOT_SIZES_assets (fst config) of
                     None \<Rightarrow> []
                   | Some d \<Rightarrow> map (\<lambda>k. (fst config @ ''_'' @ k @ ''.png'', d)) view_keys))"
proof -
  obtain device_key device_name where c: "config = (device_key, device_name)"
    by (cases config)
  obtain width height where d: "map_of SCREENSHOT_SIZES_assets device_key = Some (width, height)"
    "0 \<le> width" "0 \<le> height"
    using assms c by (auto simp: screenshot_configs_def SCREENSHOT_SIZES_assets_def)
  have "on_result file_sizes
          (for_each (render_view F device_key width height) screenshot_views saved)
        = Inr (file_sizes saved @
               concat (map (\<lambda>view. [(device_key @ ''_'' @ fst view @ ''.png'', (width, height))])
                         (screenshot_views ::
                            (string \<times> string \<times> ('f fonts \<Rightarrow> int \<Rightarrow> int \<Rightarrow> py_exception + 'f image)) list)))"
    by (rule for_each_file_sizes
          [where g = "\<lambda>view. [(device_key @ ''_'' @ fst view @ ''.png'', (width, height))]"])
       (rule render_view_file_sizes, simp_all add: d)
  moreover have "concat (map (\<lambda>view. [(device_key @ ''_'' @ fst view @ ''.png'', (width, height))])
                         (screenshot_views ::
                            (string \<times> string \<times> ('f fonts \<Rightarrow> int \<Rightarrow> int \<Rightarrow> py_exception + 'f image)) list))
                 = map (\<lambda>k. (device_key @ ''_'' @ k @ ''.png'', (width, height))) view_keys"
    by (simp add: screenshot_views_def view_keys_def)
  ultimately show ?thesis
    using c d by (simp add: render_device_def)
qed

lemma img_ops_draw:
  "img_ops (draw_rectangle xy fill img) = img_ops img @ [Rectangle xy fill]"
  "img_ops (draw_text p txt font fill img) = img_ops img @ [Text p txt font fill]"
  "img_ops (draw_line ps fill w img) = img_ops img @ [Line ps fill w]"
  by (simp_all add: draw_rectangle_def draw_text_def draw_line_def)

lemma draw_border_ops:
  "img_ops (draw_border (x1, y1, x2, y2) w c img)
     = img_ops img @ [Rectangle (x1, y1, x2, y1 + w) c, Rectangle (x1, y2 - w, x2, y2) c,
                      Rectangle (x1, y1, x1 + w, y2) c, Rectangle (x2 - w, y1, x2, y2) c]"
  by (simp add: draw_border_def img_ops_draw Let_def)

lemma prefix_draw [simp]:
  "prefix xs (img_ops img) \<Longrightarrow> prefix xs (img_ops (draw_rectangle xy fill img))"
  "prefix xs (img_ops img) \<Longrightarrow> prefix xs (img_ops (draw_text p txt font fill img))"
  "prefix xs (img_ops img) \<Longrightarrow> prefix xs (img_ops (draw_line ps fill w img))"
  "prefix xs (img_ops img) \<Longrightarrow> prefix xs (img_ops (draw_border bbox w fill img))"
  by (cases bbox; simp add: img_ops_draw draw_border_ops)+

lemma keeps_Inr [simp]: "keeps xs (Inr img) = prefix xs (img_ops img)"
  by (simp add: keeps_def)

lemma keeps_and_then:
  "keeps xs r \<Longrightarrow> (\<And>img. prefix xs (img_ops img) \<Longrightarrow> keeps xs (k img)) \<Longrightarrow> keeps xs (and_then r k)"
  by (cases r) (simp_all add: keeps_def)

lemma keeps_for_each:
  assumes "\<And>x img. prefix xs (img_ops img) \<Longrightarrow> keeps xs (body x img)"
  shows "prefix xs (img_ops img) \<Longrightarrow> keeps xs (for_each body items img)"
proof (induction items arbitrary: img)
  case Nil
  then show ?case by simp
next
  case (Cons a items)
  show ?case
    using Cons.prems Cons.IH assms by (simp add: keeps_and_then)
qed

lemma prefix_fold:
  "(\<And>x img. prefix xs (img_ops img) \<Longrightarrow> prefix xs (img_ops (f x img))) \<Longrightarrow>
   prefix xs (img_ops img) \<Longrightarrow> prefix xs (img_ops (fold f items img))"
  by (induction items arbitrary: img) simp_all

lemma tab_item_prefix:
  "prefix xs (img_ops img) \<Longrightarrow> prefix xs (img_ops (tab_item height tab_y tab_width tab_font item img))"
  by (simp add: tab_item_def Let_def split: prod.splits)

lemma tank_card_keeps:
  "prefix xs (img_ops img) \<Longrightarrow>
   keeps xs (tank_card F width height content_y card_height card_spacing card_width card_x item img)"
  by (simp add: tank_card_def get_font_resolve Let_def split: prod.splits)

lemma analysis_card_keeps:
  "prefix xs (img_ops img) \<Longrightarrow>
   keeps xs (analysis_card F width scroll_y card_w card_h card_spacing item img)"
  by (simp add: analysis_card_def get_font_resolve Let_def split: prod.splits)

lemma measurement_input_keeps:
  "prefix xs (img_ops img) \<Longrightarrow>
   keeps xs (measurement_input F width height scroll_y input_h input_w input_x input_spacing item img)"
  by (simp add: measurement_input_def get_font_resolve Let_def split: prod.splits)

lemma chart_item_keeps:
  "prefix xs (img_ops img) \<Longrightarrow>
   keeps xs (chart_item F width list_y item_h item_spacing chart_x chart_w item img)"
  by (simp add: chart_item_def get_font_resolve Let_def split: prod.splits)

lemma tank_list_header:
  "0 \<le> width \<Longrightarrow> 0 \<le> height \<Longrightarrow>
   keeps [Rectangle (0, 0, width, int_times height 6 100) COLORS_white,
          Rectangle (0, int_times height 6 100, width,
                     int_times height 6 100 + int_times height 12 100) COLORS_white]
     (create_screenshot_tank_list F width height)"
  unfolding create_screenshot_tank_list_def
  by (simp add: image_new_size get_font_resolve Let_def case_prod_beta img_ops_draw
        keeps_and_then keeps_for_each tank_card_keeps prefix_fold tab_item_prefix
        del: for_each.simps)

lemma analysis_header:
  "0 \<le> width \<Longrightarrow> 0 \<le> height \<Longrightarrow>
   keeps [Rectangle (0, int_times height 6 100, width,
                     int_times height 6 100 + int_times height 1 10) COLORS_white]
     (create_screenshot_analysis F width height)"
  unfolding create_screenshot_analysis_def
  by (simp add: image_new_size get_font_resolve Let_def case_prod_beta img_ops_draw
        keeps_and_then keeps_for_each analysis_card_keeps del: for_each.simps)

lemma measurement_header:
  "0 \<le> width \<Longrightarrow> 0 \<le> height \<Longrightarrow>
   keeps [Rectangle (0, int_times height 6 100, width,
                     int_times height 6 100 + int_times height 1 10) COLORS_white]
     (create_screenshot_measurement F width height)"
  unfolding create_screenshot_measurement_def
  by (simp add: image_new_size get_font_resolve Let_def case_prod_beta img_ops_draw
        keeps_and_then keeps_for_each measurement_input_keeps del: for_each.simps)

lemma chart_header:
  "0 \<le> width \<Longrightarrow> 0 \<le> height \<Longrightarrow>
   keeps [Rectangle (0, int_times height 6 100, width,
                     int_times height 6 100 + int_times height 1 10) COLORS_white]
     (create_screenshot_chart F width height)"
  unfolding create_screenshot_chart_def
  by (simp add: image_new_size get_font_resolve Let_def case_prod_beta img_ops_draw
        keeps_and_then keeps_for_each chart_item_keeps prefix_fold del: for_each.simps)

lemma keeps_header_band:
  "keeps xs r \<Longrightarrow> header_band_index view_key < length xs \<Longrightarrow>
   on_result (header_band view_key) r = Inr (xs ! header_band_index view_key)"
  by (cases r) (auto simp: keeps_def header_band_def prefix_def nth_append)

lemma on_result_header_height:
  "on_result (header_band view_key) r = Inr (Rectangle (x0, y0, x1, y1) fill) \<Longrightarrow>
   on_result (header_height_of view_key) r = Inr (y1 - y0)"
  by (cases r) (simp_all add: header_height_of_def)

lemma same_font_env_get_font:
  assumes "same_font_env F F'"
  shows "get_font F = get_font F'"
proof (intro ext)
  fix sz bold
  have t: "truetype F p sz = truetype F' p sz" if "p \<in> set (font_candidates bold)" for p bold
    using assms that unfolding same_font_env_def by blast
  have b: "truetype F ''/System/Library/Fonts/Supplemental/Arial Bold.ttf'' sz
             = truetype F' ''/System/Library/Fonts/Supplemental/Arial Bold.ttf'' sz"
          "truetype F ''/Library/Fonts/Arial Bold.ttf'' sz
             = truetype F' ''/Library/Fonts/Arial Bold.ttf'' sz"
    using t[of _ True] by (simp_all add: font_candidates_def)
  have r: "truetype F ''/System/Library/Fonts/Supplemental/Arial.ttf'' sz
             = truetype F' ''/System/Library/Fonts/Supplemental/Arial.ttf'' sz"
          "truetype F ''/Library/Fonts/Arial.ttf'' sz
             = truetype F' ''/Library/Fonts/Arial.ttf'' sz"
    using t[of _ False] by (simp_all add: font_candidates_def)
  have d: "load_default F = load_default F'"
    using assms by (simp add: same_font_env_def)
  show "get_font F sz bold = get_font F' sz bold"
    unfolding get_font_def b r d by (rule refl)
qed

lemma same_font_env_textbbox: "same_font_env F F' \<Longrightarrow> textbbox F = textbbox F'"
  by (intro ext) (simp add: same_font_env_def)

lemma same_font_env_bodies:
  assumes "same_font_env F F'"
  shows "tank_card F = tank_card F'"
    and "analysis_card F = analysis_card F'"
    and "measurement_input F = measurement_input F'"
    and "chart_item F = chart_item F'"
proof -
  note eq = same_font_env_get_font[OF assms]
  have "tank_card F a b c d e f g h i = tank_card F' a b c d e f g h i" for a b c d e f g h i
    unfolding tank_card_def eq by (rule refl)
  then show "tank_card F = tank_card F'" by (intro ext)
  have "analysis_card F a b c d e f g = analysis_card F' a b c d e f g" for a b c d e f g
    unfolding analysis_card_def eq by (rule refl)
  then show "analysis_card F = analysis_card F'" by (intro ext)
  have "measurement_input F a b c d e f g h i = measurement_input F' a b c d e f g h i"
    for a b c d e f g h i
    unfolding measurement_input_def eq by (rule refl)
  then show "measurement_input F = measurement_input F'" by (intro ext)
  have "chart_item F a b c d e f g h = chart_item F' a b c d e f g h" for a b c d e f g h
    unfolding chart_item_def eq by (rule refl)
  then show "chart_item F = chart_item F'" by (intro ext)
qed

lemma same_font_env_views:
  assumes "same_font_env F F'"
  shows "create_screenshot_tank_list F width height = create_screenshot_tank_list F' width height"
    and "create_screenshot_analysis F width height = create_screenshot_analysis F' width height"
    and "create_screenshot_measurement F width height
           = create_screenshot_measurement F' width height"
    and "create_screenshot_chart F width height = create_screenshot_chart F' width height"
proof -
  note eq = same_font_env_get_font[OF assms] same_font_env_textbbox[OF assms]
    same_font_env_bodies[OF assms]
  show "create_screenshot_tank_list F width height = create_screenshot_tank_list F' width height"
    unfolding create_screenshot_tank_list_def eq by (rule refl)
  show "create_screenshot_analysis F width height = create_screenshot_analysis F' width height"
    unfolding create_screenshot_analysis_def eq by (rule refl)
  show "create_screenshot_measurement F width height
           = create_screenshot_measurement F' width height"
    unfolding create_screenshot_measurement_def eq by (rule refl)
  show "create_screenshot_chart F width height = create_screenshot_chart F' width height"
    unfolding create_screenshot_chart_def eq by (rule refl)
qed

lemma same_font_env_render_view:
  assumes "same_font_env F F'" and "view \<in> set screenshot_views"
  shows "render_view F device_key width height view saved
           = render_view F' device_key width height view saved"
  using assms(2) same_font_env_views[OF assms(1), of width height]
  by (auto simp: render_view_def screenshot_views_def)

lemma for_each_cong_on:
  "(\<And>x s. x \<in> set xs \<Longrightarrow> body x s = body' x s) \<Longrightarrow> for_each body xs s = for_each body' xs s"
  by (induction xs arbitrary: s) (simp_all add: and_then_def split: sum.splits)

lemma same_font_env_render_device:
  assumes "same_font_env F F'"
  shows "render_device F config saved = render_device F' config saved"
proof -
  obtain device_key device_name where c: "config = (device_key, device_name)"
    by (cases config)
  show ?thesis
  proof (cases "map_of SCREENSHOT_SIZES_assets device_key")
    case None
    then show ?thesis by (simp add: render_device_def c)
  next
    case (Some d)
    obtain width height where d: "d = (width, height)" by (cases d)
    have "for_each (render_view F device_key width height) screenshot_views saved
            = for_each (render_view F' device_key width height) screenshot_views saved"
      by (rule for_each_cong_on) (rule same_font_env_render_view[OF assms])
    then show ?thesis by (simp add: render_device_def c Some d)
  qed
qed


section \<open>Properties of the resizer\<close>

text \<open>
  C1. A target whose resize, write or verify step raises is logged and skipped: the counter
  keeps its value and the last line printed is the error line of that target. Every
  registered target is attempted (one \<^verbatim>\<open>resize\<close> call and one report per target, in table
  order), and the final success count is the number of targets reported as created, a
  target being counted exactly when its written output is reopened with the target size. With
  four targets, one failed and none of wrong size, the count is 3.
\<close>

theorem batch_isolates_failures:
  assumes run: "resize_loop L img output_dir view_name targets (0, w, []) = (success_count, w', evs)"
  shows "resize_calls evs = map snd targets
       \<and> map fst (reports evs) = map (output_path_of output_dir view_name) targets
       \<and> success_count = count_report Created evs
       \<and> (\<forall>entry c w0 es e.
            try_raises L img (output_path_of output_dir view_name entry) (snd entry) w0 = Some e \<longrightarrow>
              fst (resize_one L img output_dir view_name entry (c, w0, es)) = c \<and>
              last (snd (snd (resize_one L img output_dir view_name entry (c, w0, es))))
                = Print (MsgErrorCreating (output_path_of output_dir view_name entry) e))
       \<and> (\<forall>entry c w0 es.
            fst (resize_one L img output_dir view_name entry (c, w0, es))
              = (if verifies L img (output_path_of output_dir view_name entry) (snd entry) w0
                 then c + 1 else c))
       \<and> (length targets = 4 \<longrightarrow> count_report Failed evs = 1 \<longrightarrow>
            count_report WrongSize evs = 0 \<longrightarrow> success_count = 3)"
proof -
  have calls: "resize_calls evs = map snd targets"
    using resize_loop_calls[of L img output_dir view_name targets "(0, w, [])"] run by simp
  have reps: "map fst (reports evs) = map (output_path_of output_dir view_name) targets"
    using resize_loop_reports[of L img output_dir view_name targets "(0, w, [])"] run by simp
  have cnt: "success_count = count_report Created evs"
    using resize_loop_count[of L img output_dir view_name targets "(0, w, [])"] run
    by (simp add: count_report_def)
  have len: "length (reports evs) = length targets"
    using reps by (metis length_map)
  have three: "length targets = 4 \<longrightarrow> count_report Failed evs = 1 \<longrightarrow>
            count_report WrongSize evs = 0 \<longrightarrow> success_count = 3"
    using report_partition[of evs] len cnt by simp
  have raises: "\<forall>entry c w0 es e.
            try_raises L img (output_path_of output_dir view_name entry) (snd entry) w0 = Some e \<longrightarrow>
              fst (resize_one L img output_dir view_name entry (c, w0, es)) = c \<and>
              last (snd (snd (resize_one L img output_dir view_name entry (c, w0, es))))
                = Print (MsgErrorCreating (output_path_of output_dir view_name entry) e)"
    by (intro allI impI) (rule resize_one_raises)
  have verif: "\<forall>entry c w0 es.
            fst (resize_one L img output_dir view_name entry (c, w0, es))
              = (if verifies L img (output_path_of output_dir view_name entry) (snd entry) w0
                 then c + 1 else c)"
    by (intro allI) (rule resize_one_verifies)
  from calls reps cnt raises verif three show ?thesis
    by (intro conjI)
qed

theorem batch_isolates_failures_witness:
  "fst (resize_loop demo_lib (1170, 2532) (Path ''out'') ''home'' SCREENSHOT_SIZES
          (0, demo_world, [])) = 3
   \<and> resize_calls (snd (snd (resize_loop demo_lib (1170, 2532) (Path ''out'') ''home''
          SCREENSHOT_SIZES (0, demo_world, []))))
       = [(1284, 2778), (2778, 1284), (1242, 2688), (2688, 1242)]
   \<and> try_raises demo_lib (1170, 2532) (Slash (Path ''out'') ''iphone_65_portrait_home.png'')
        (1242, 2688) demo_world = Some (Exception ''PermissionError'')"
proof -
  obtain n w' evs where run:
    "resize_loop demo_lib (1170, 2532) (Path ''out'') ''home'' SCREENSHOT_SIZES
       (0, demo_world, []) = (n, w', evs)"
    using prod_cases3 by blast
  have len: "length SCREENSHOT_SIZES = 4"
    by (simp add: SCREENSHOT_SIZES_def)
  have failed: "count_report Failed evs = 1" and wrong: "count_report WrongSize evs = 0"
    using run by (auto simp: demo_simps)
  have raises: "try_raises demo_lib (1170, 2532)
      (Slash (Path ''out'') ''iphone_65_portrait_home.png'') (1242, 2688) demo_world
        = Some (Exception ''PermissionError'')"
    by (simp add: try_raises_def demo_lib_def demo_world_def)
  from batch_isolates_failures[OF run] len failed wrong raises run
  show ?thesis by (simp add: SCREENSHOT_SIZES_def)
qed

text \<open>
  C2. For a table entry, whatever the size of the input image: \<^verbatim>\<open>resize\<close> is called with
  exactly the registered width and height; an output that is counted was reopened with
  exactly that size; and when Pillow keeps its contract no output is ever reported with
  another size, in one iteration or over the whole table. In particular an input that already
  has the target size is resized to that same size, and \<^verbatim>\<open>iphone_67_portrait\<close> is registered
  as 1284 by 2778.
\<close>

theorem output_has_registered_dims:
  assumes run: "resize_one L img output_dir view_name (size_name, (width, height)) (c, w, evs)
                  = (c', w', evs')"
  shows "resize_calls evs' = resize_calls evs @ [(width, height)]
       \<and> (c' = c + 1 \<longrightarrow>
            (\<exists>v. image_open L w' (Slash output_dir (size_name @ ''_'' @ view_name @ ''.png'')) = Inr v
                 \<and> image_size L v = (width, height)))
       \<and> (pil_contract L \<longrightarrow>
            count_report WrongSize evs' = count_report WrongSize evs
            \<and> count_report WrongSize
                 (snd (snd (resize_loop L img output_dir view_name SCREENSHOT_SIZES (0, w, [])))) = 0
            \<and> (\<forall>resized. image_resize L w img (width, height) = Inr resized \<longrightarrow>
                   image_size L img = (width, height) \<longrightarrow> image_size L resized = image_size L img))
       \<and> map_of SCREENSHOT_SIZES ''iphone_67_portrait'' = Some (1284, 2778)"
proof -
  have a: "resize_calls evs' = resize_calls evs @ [(width, height)]"
    using resize_one_calls[of L img output_dir view_name "(size_name, (width, height))" "(c, w, evs)"]
      run by simp
  have b: "c' = c + 1 \<longrightarrow>
            (\<exists>v. image_open L w' (Slash output_dir (size_name @ ''_'' @ view_name @ ''.png'')) = Inr v
                 \<and> image_size L v = (width, height))"
    using resize_one_created_reopens[OF run] by (simp add: output_path_of_def)
  have c1: "count_report WrongSize evs' = count_report WrongSize evs" if "pil_contract L"
    using resize_one_no_wrong_size[OF that, of img output_dir view_name "(size_name, (width, height))" c w evs]
      run by simp
  have c2: "count_report WrongSize
                 (snd (snd (resize_loop L img output_dir view_name SCREENSHOT_SIZES (0, w, [])))) = 0"
    if "pil_contract L"
    using resize_loop_no_wrong_size[OF that, of img output_dir view_name SCREENSHOT_SIZES "(0, w, [])"]
    by (simp add: count_report_def)
  have c3: "\<forall>resized. image_resize L w img (width, height) = Inr resized \<longrightarrow>
                   image_size L img = (width, height) \<longrightarrow> image_size L resized = image_size L img"
    if "pil_contract L"
    using that unfolding pil_contract_def by metis
  have d: "map_of SCREENSHOT_SIZES ''iphone_67_portrait'' = Some (1284, 2778)"
    by (simp add: SCREENSHOT_SIZES_def)
  from a b c1 c2 c3 d show ?thesis by blast
qed

theorem output_has_registered_dims_witness:
  "pil_contract demo_lib
   \<and> image_open demo_lib
        (fst (snd (resize_one demo_lib (1284, 2778) (Path ''out'') ''home''
                    (''iphone_67_portrait'', (1284, 2778)) (0, demo_world, []))))
        (Slash (Path ''out'') ''iphone_67_portrait_home.png'') = Inr (1284, 2778)
   \<and> image_open demo_lib
        (fst (snd (resize_one demo_lib (1170, 2532) (Path ''out'') ''home''
                    (''iphone_67_portrait'', (1284, 2778)) (0, demo_world, []))))
        (Slash (Path ''out'') ''iphone_67_portrait_home.png'') = Inr (1284, 2778)"
proof -
  have contract: "pil_contract demo_lib"
    by (auto simp: pil_contract_def demo_lib_def split: if_splits)
  have r1: "resize_one demo_lib (1284, 2778) (Path ''out'') ''home''
              (''iphone_67_portrait'', (1284, 2778)) (0, demo_world, [])
          = (1, fst (snd (resize_one demo_lib (1284, 2778) (Path ''out'') ''home''
                    (''iphone_67_portrait'', (1284, 2778)) (0, demo_world, []))),
             snd (snd (resize_one demo_lib (1284, 2778) (Path ''out'') ''home''
                    (''iphone_67_portrait'', (1284, 2778)) (0, demo_world, []))))"
    by (simp add: demo_simps)
  have r2: "resize_one demo_lib (1170, 2532) (Path ''out'') ''home''
              (''iphone_67_portrait'', (1284, 2778)) (0, demo_world, [])
          = (1, fst (snd (resize_one demo_lib (1170, 2532) (Path ''out'') ''home''
                    (''iphone_67_portrait'', (1284, 2778)) (0, demo_world, []))),
             snd (snd (resize_one demo_lib (1170, 2532) (Path ''out'') ''home''
                    (''iphone_67_portrait'', (1284, 2778)) (0, demo_world, []))))"
    by (simp add: demo_simps)
  from output_has_registered_dims[OF r1] output_has_registered_dims[OF r2] contract
  show ?thesis by (simp add: demo_lib_def)
qed

text \<open>
  C4, amended. When the input path does not exist, or \<^verbatim>\<open>Image.open\<close> raises on it, the
  resizer returns \<^verbatim>\<open>False\<close> (exit status 1 from the command line), leaves the world as it
  was and makes no call that creates a directory, resizes or saves. The guard is on
  \<^verbatim>\<open>Image.open\<close> alone (lines 28 to 33).
\<close>

theorem missing_or_undecodable_input_aborts:
  assumes "\<not> path_exists L w (Path input_path) \<or> (\<exists>e. image_open L w (Path input_path) = Inl e)"
  shows "fst (resize_screenshot L input_path output_dir view_name w) = Inr False
       \<and> fst (snd (resize_screenshot L input_path output_dir view_name w)) = w
       \<and> writes (snd (snd (resize_screenshot L input_path output_dir view_name w))) = []
       \<and> fst (main L [prog, input_path] w) = SysExit 1"
  using assms by (auto simp: resize_screenshot_def main_def cli_view_name_def cli_output_dir_def Let_def)

theorem missing_or_undecodable_input_aborts_witness:
  "\<not> path_exists demo_lib demo_world (Path ''nothing.png'')
   \<and> image_open demo_lib demo_world (Path ''notes.txt'') = Inl (Exception ''UnidentifiedImageError'')
   \<and> resize_screenshot demo_lib ''nothing.png'' (Some ''out'') ''home'' demo_world
       = (Inr False, demo_world,
          [Exists (Path ''nothing.png''), Print (MsgFileNotFound (Path ''nothing.png''))])
   \<and> fst (resize_screenshot demo_lib ''notes.txt'' (Some ''out'') ''home'' demo_world) = Inr False
   \<and> writes (snd (snd (resize_screenshot demo_lib ''notes.txt'' (Some ''out'') ''home'' demo_world))) = []"
proof -
  have missing: "\<not> path_exists demo_lib demo_world (Path ''nothing.png'')"
    by (simp add: demo_lib_def demo_world_def)
  have undecodable: "image_open demo_lib demo_world (Path ''notes.txt'')
      = Inl (Exception ''UnidentifiedImageError'')"
    by (simp add: demo_lib_def demo_world_def)
  have run: "resize_screenshot demo_lib ''nothing.png'' (Some ''out'') ''home'' demo_world
       = (Inr False, demo_world,
          [Exists (Path ''nothing.png''), Print (MsgFileNotFound (Path ''nothing.png''))])"
    by (simp add: resize_screenshot_def demo_lib_def demo_world_def Let_def)
  from missing_or_undecodable_input_aborts[of demo_lib demo_world "''notes.txt''" "Some ''out''" "''home''"]
       undecodable missing run
  show ?thesis by simp
qed

text \<open>
  C4 as first stated does not hold for every file that fails to decode: \<^verbatim>\<open>Image.open\<close> is
  lazy, so a file whose pixel data cannot be decoded opens, the output directory is created
  and a resize is attempted for each of the four targets; each raises and the result is
  \<^verbatim>\<open>False\<close>.
\<close>

theorem lazily_undecodable_input_does_work:
  "path_exists truncated_lib demo_world (Path ''shot.png'')
   \<and> image_open truncated_lib demo_world (Path ''shot.png'') = Inr (1170, 2532)
   \<and> image_resize truncated_lib demo_world (1170, 2532) (1284, 2778) = Inl (Exception ''OSError'')
   \<and> fst (resize_screenshot truncated_lib ''shot.png'' (Some ''out'') ''home'' demo_world)
       = Inr False
   \<and> writes (snd (snd (resize_screenshot truncated_lib ''shot.png'' (Some ''out'') ''home''
                          demo_world)))
       = [Mkdir (Path ''out''), Resize (1284, 2778), Resize (2778, 1284),
          Resize (1242, 2688), Resize (2688, 1242)]"
  by (simp add: truncated_lib_def resize_screenshot_def resolve_output_dir_def demo_simps)

text \<open>
  C5. For an invocation that reaches the batch (an input path is given, it exists and opens,
  and the output directory is created), the exit status is 0 exactly when the number of
  targets reported as created equals the number of registered targets, and 1 otherwise;
  every target has one report, and \<^verbatim>\<open>resize_screenshot\<close> returns that comparison as a
  boolean, not an exception.
\<close>

theorem exit_code_reflects_success_count:
  assumes args: "2 \<le> length argv"
      and exists: "path_exists L w (Path (argv ! 1))"
      and opened: "image_open L w (Path (argv ! 1)) = Inr img"
      and mkdir: "fst (path_mkdir L w (resolve_output_dir (cli_output_dir argv))) = None"
  shows "fst (main L argv w)
           = SysExit (if count_report Created (snd (snd (main L argv w))) = length SCREENSHOT_SIZES
                      then 0 else 1)
       \<and> length (reports (snd (snd (main L argv w)))) = length SCREENSHOT_SIZES
       \<and> fst (resize_screenshot L (argv ! 1) (cli_output_dir argv) (cli_view_name argv) w)
           = Inr (count_report Created (snd (snd (main L argv w))) = length SCREENSHOT_SIZES)"
proof -
  let ?D = "resolve_output_dir (cli_output_dir argv)"
  let ?pre = "[Exists (Path (argv ! 1)), Open (Path (argv ! 1)),
               Print (MsgLoaded (Path (argv ! 1)) (fst (image_size L img))
                        (snd (image_size L img))), Mkdir ?D]"
  obtain w1 where w1: "path_mkdir L w ?D = (None, w1)"
    using mkdir by (cases "path_mkdir L w ?D") simp
  obtain n w2 evs where loop:
    "resize_loop L img ?D (cli_view_name argv) SCREENSHOT_SIZES (0, w1, ?pre) = (n, w2, evs)"
    using prod_cases3 by blast
  have rs: "resize_screenshot L (argv ! 1) (cli_output_dir argv) (cli_view_name argv) w
           = (Inr (n = length SCREENSHOT_SIZES), w2,
              evs @ [Print (MsgSummary n (length SCREENSHOT_SIZES)), Print (MsgOutputDir ?D)])"
    by (rule resize_screenshot_batch[OF exists opened w1 loop])
  have n: "n = count_report Created evs"
    using resize_loop_count[of L img ?D "cli_view_name argv" SCREENSHOT_SIZES "(0, w1, ?pre)"] loop
    by (simp add: count_report_def)
  have len: "length (reports evs) = length SCREENSHOT_SIZES"
    using resize_loop_reports_length[of L img ?D "cli_view_name argv" SCREENSHOT_SIZES "(0, w1, ?pre)"]
      loop by simp
  have m: "main L argv w
         = (SysExit (if n = length SCREENSHOT_SIZES then 0 else 1), w2,
            Print (MsgBanner (argv ! 1) (cli_view_name argv)) #
            evs @ [Print (MsgSummary n (length SCREENSHOT_SIZES)), Print (MsgOutputDir ?D)])"
    using args rs by (simp add: main_def Let_def cli_output_dir_def cli_view_name_def)
  show ?thesis
    using m rs n len by (simp add: count_report_def reports_append)
qed

theorem exit_code_reflects_success_count_witness:
  "fst (main demo_lib [''resize-screenshots.py'', ''shot.png'', ''home'', ''out''] demo_world)
     = SysExit 1
   \<and> fst (main demo_lib [''resize-screenshots.py'', ''shot.png'', ''tank-list'', ''out''] demo_world)
     = SysExit 0"
proof -
  let ?a = "[''resize-screenshots.py'', ''shot.png'', ''home'', ''out'']"
  let ?b = "[''resize-screenshots.py'', ''shot.png'', ''tank-list'', ''out'']"
  have a: "count_report Created (snd (snd (main demo_lib ?a demo_world))) = 3"
    by (simp add: main_def resize_screenshot_def resolve_output_dir_def cli_view_name_def
          cli_output_dir_def demo_simps)
  have b: "count_report Created (snd (snd (main demo_lib ?b demo_world))) = 4"
    by (simp add: main_def resize_screenshot_def resolve_output_dir_def cli_view_name_def
          cli_output_dir_def demo_simps)
  have h: "path_exists demo_lib demo_world (Path ''shot.png'')"
          "image_open demo_lib demo_world (Path ''shot.png'') = Inr (1170, 2532)"
          "fst (path_mkdir demo_lib demo_world (Path ''out'')) = None"
    by (simp_all add: demo_lib_def demo_world_def)
  from exit_code_reflects_success_count[of ?a demo_lib demo_world "(1170, 2532)"]
       exit_code_reflects_success_count[of ?b demo_lib demo_world "(1170, 2532)"]
       a b h
  show ?thesis
    by (simp add: cli_output_dir_def resolve_output_dir_def SCREENSHOT_SIZES_def)
qed



section \<open>Properties of the asset generator\<close>

text \<open>
  C9. For every requested size and both weights, \<^verbatim>\<open>get_font\<close> returns a font and never an
  exception: the font of the first candidate path if it loads, else that of the second, else
  the built-in default. This is the resolution of the two-element candidate list.
\<close>

theorem font_loading_never_raises:
  "get_font F sz bold = Inr (resolve_font F (font_candidates bold) sz)
   \<and> (\<exists>font. get_font F sz bold = Inr font)
   \<and> length (font_candidates bold) = 2
   \<and> (truetype F (font_candidates bold ! 0) sz = Inr f0 \<longrightarrow> get_font F sz bold = Inr f0)
   \<and> (truetype F (font_candidates bold ! 0) sz = Inl e0 \<longrightarrow>
        truetype F (font_candidates bold ! 1) sz = Inr f1 \<longrightarrow> get_font F sz bold = Inr f1)
   \<and> (truetype F (font_candidates bold ! 0) sz = Inl e0 \<longrightarrow>
        truetype F (font_candidates bold ! 1) sz = Inl e1 \<longrightarrow>
        get_font F sz bold = Inr (load_default F))"
  by (simp add: get_font_def font_candidates_def split: sum.splits)

theorem font_loading_never_raises_witness:
  "get_font no_fonts 460 True = Inr DefaultFont
   \<and> get_font library_fonts 460 True = Inr (TrueTypeFont ''/Library/Fonts/Arial Bold.ttf'' 460)
   \<and> get_font library_fonts 0 False = Inr DefaultFont"
proof -
  have a: "truetype no_fonts (font_candidates True ! 0) 460 = Inl (Exception ''OSError'')"
          "truetype no_fonts (font_candidates True ! 1) 460 = Inl (Exception ''OSError'')"
    by (simp_all add: no_fonts_def)
  have b: "truetype library_fonts (font_candidates True ! 0) 460 = Inl (Exception ''OSError'')"
          "truetype library_fonts (font_candidates True ! 1) 460
             = Inr (TrueTypeFont ''/Library/Fonts/Arial Bold.ttf'' 460)"
    by (simp_all add: library_fonts_def font_candidates_def)
  have c: "truetype library_fonts (font_candidates False ! 0) 0 = Inl (Exception ''OSError'')"
          "truetype library_fonts (font_candidates False ! 1) 0 = Inl (Exception ''OSError'')"
    by (simp_all add: library_fonts_def font_candidates_def)
  have 1: "get_font no_fonts 460 True = Inr (load_default no_fonts)"
    using font_loading_never_raises[of no_fonts 460 True _ "Exception ''OSError''" _
            "Exception ''OSError''"] a by blast
  have 2: "get_font library_fonts 460 True
             = Inr (TrueTypeFont ''/Library/Fonts/Arial Bold.ttf'' 460)"
    using font_loading_never_raises[of library_fonts 460 True _ "Exception ''OSError''"
            "TrueTypeFont ''/Library/Fonts/Arial Bold.ttf'' 460" _] b by blast
  have 3: "get_font library_fonts 0 False = Inr (load_default library_fonts)"
    using font_loading_never_raises[of library_fonts 0 False _ "Exception ''OSError''" _
            "Exception ''OSError''"] c by blast
  from 1 2 3 show ?thesis
    by (simp add: no_fonts_def library_fonts_def)
qed

text \<open>
  C7. In every font environment \<^verbatim>\<open>create_app_icon\<close> returns an image of 1024 by 1024
  pixels.
\<close>

theorem icon_is_1024_square:
  "on_result img_size (create_app_icon F) = Inr (1024, 1024)"
  by (simp add: create_app_icon_def image_new_def get_font_resolve Let_def case_prod_beta)

theorem icon_is_1024_square_witness:
  "on_result img_size (create_app_icon no_fonts) = Inr (1024, 1024)
   \<and> on_result img_size (create_app_icon library_fonts) = Inr (1024, 1024)"
  using icon_is_1024_square[of no_fonts] icon_is_1024_square[of library_fonts] by simp

text \<open>
  C6. For every size of the device table each of the four view functions returns an image of
  exactly that size, and the loop of \<^verbatim>\<open>main\<close> produces, for every device and view, a file
  with an image of the device's size.
\<close>

theorem views_have_requested_size:
  fixes F :: "'f fonts"
  assumes "(device_key, (width, height)) \<in> set SCREENSHOT_SIZES_assets"
      and "(view_key, view_name, view_func) \<in> set screenshot_views"
  shows "on_result img_size (view_func F width height) = Inr (width, height)
       \<and> on_result file_sizes (main_screenshots F)
           = Inr (concat (map (\<lambda>(d, sz). map (\<lambda>k. (d @ ''_'' @ k @ ''.png'', sz)) view_keys)
                            SCREENSHOT_SIZES_assets))"
proof -
  have "0 \<le> width" "0 \<le> height"
    using assms(1) by (auto simp: SCREENSHOT_SIZES_assets_def)
  then have a: "on_result img_size (view_func F width height) = Inr (width, height)"
    using view_size[OF assms(2)] by simp
  have "on_result file_sizes (for_each (render_device F) screenshot_configs [])
          = Inr (file_sizes ([] :: (string \<times> string \<times> 'f image) list) @
                 concat (map (\<lambda>config. case map_of SCREENSHOT_SIZES_assets (fst config) of
                     None \<Rightarrow> []
                   | Some d \<Rightarrow> map (\<lambda>k. (fst config @ ''_'' @ k @ ''.png'', d)) view_keys)
                   screenshot_configs))"
    by (rule for_each_file_sizes
          [where g = "\<lambda>config. case map_of SCREENSHOT_SIZES_assets (fst config) of
                     None \<Rightarrow> []
                   | Some d \<Rightarrow> map (\<lambda>k. (fst config @ ''_'' @ k @ ''.png'', d)) view_keys"])
       (rule render_device_file_sizes)
  then have b: "on_result file_sizes (main_screenshots F)
           = Inr (concat (map (\<lambda>(d, sz). map (\<lambda>k. (d @ ''_'' @ k @ ''.png'', sz)) view_keys)
                            SCREENSHOT_SIZES_assets))"
    by (simp add: main_screenshots_def file_sizes_def screenshot_configs_def
          SCREENSHOT_SIZES_assets_def)
  from a b show ?thesis by simp
qed

theorem views_have_requested_size_witness:
  "on_result img_size (create_screenshot_analysis no_fonts 1290 2796) = Inr (1290, 2796)
   \<and> on_result img_size (create_screenshot_chart library_fonts 2048 2732) = Inr (2048, 2732)"
proof -
  have d: "(''iphone_67'', (1290, 2796)) \<in> set SCREENSHOT_SIZES_assets"
          "(''ipad_129'', (2048, 2732)) \<in> set SCREENSHOT_SIZES_assets"
    by (simp_all add: SCREENSHOT_SIZES_assets_def)
  have v: "(''analysis'', ''Analysis'', create_screenshot_analysis) \<in> set screenshot_views"
          "(''chart'', ''History & Charts'', create_screenshot_chart) \<in> set screenshot_views"
    by (simp_all add: screenshot_views_def)
  from views_have_requested_size[OF d(1) v(1), of no_fonts]
       views_have_requested_size[OF d(2) v(2), of library_fonts]
  show ?thesis by simp
qed

text \<open>
  C3, amended. On a canvas of non-negative width and height, the header band of
  the tank list is the rectangle from the status bar down, of height \<^verbatim>\<open>int(height * 0.12)\<close>;
  the header bands of the analysis, measurement and chart views have height
  \<^verbatim>\<open>int(height * 0.1)\<close>, 10% of the canvas height truncated.
\<close>

theorem header_band_heights:
  assumes "0 \<le> width" and "0 \<le> height"
  shows "on_result (header_band ''tank-list'') (create_screenshot_tank_list F width height)
           = Inr (Rectangle (0, int_times height 6 100, width,
                             int_times height 6 100 + int_times height 12 100) COLORS_white)
       \<and> on_result (header_height_of ''tank-list'') (create_screenshot_tank_list F width height)
           = Inr (int_times height 12 100)
       \<and> on_result (header_height_of ''analysis'') (create_screenshot_analysis F width height)
           = Inr (int_times height 10 100)
       \<and> on_result (header_height_of ''measurement'')
            (create_screenshot_measurement F width height) = Inr (int_times height 10 100)
       \<and> on_result (header_height_of ''chart'') (create_screenshot_chart F width height)
           = Inr (int_times height 10 100)"
proof -
  have ten: "int_times height 10 100 = int_times height 1 10"
    using assms(2) by (simp add: int_times_def)
  have t: "on_result (header_band ''tank-list'') (create_screenshot_tank_list F width height)
           = Inr (Rectangle (0, int_times height 6 100, width,
                             int_times height 6 100 + int_times height 12 100) COLORS_white)"
    using keeps_header_band[OF tank_list_header[OF assms, of F], of "''tank-list''"]
    by (simp add: header_band_index_def)
  have a: "on_result (header_band ''analysis'') (create_screenshot_analysis F width height)
           = Inr (Rectangle (0, int_times height 6 100, width,
                             int_times height 6 100 + int_times height 1 10) COLORS_white)"
    using keeps_header_band[OF analysis_header[OF assms, of F], of "''analysis''"]
    by (simp add: header_band_index_def)
  have m: "on_result (header_band ''measurement'') (create_screenshot_measurement F width height)
           = Inr (Rectangle (0, int_times height 6 100, width,
                             int_times height 6 100 + int_times height 1 10) COLORS_white)"
    using keeps_header_band[OF measurement_header[OF assms, of F], of "''measurement''"]
    by (simp add: header_band_index_def)
  have c: "on_result (header_band ''chart'') (create_screenshot_chart F width height)
           = Inr (Rectangle (0, int_times height 6 100, width,
                             int_times height 6 100 + int_times height 1 10) COLORS_white)"
    using keeps_header_band[OF chart_header[OF assms, of F], of "''chart''"]
    by (simp add: header_band_index_def)
  show ?thesis
    using t on_result_header_height[OF t] on_result_header_height[OF a]
      on_result_header_height[OF m] on_result_header_height[OF c] ten
    by simp
qed

theorem header_band_heights_witness:
  "on_result (header_height_of ''tank-list'') (create_screenshot_tank_list no_fonts 1290 2796)
     = Inr 335
   \<and> on_result (header_height_of ''chart'') (create_screenshot_chart no_fonts 1290 2796)
     = Inr 279"
proof -
  have h: "(0::int) \<le> 1290" "(0::int) \<le> 2796" by simp_all
  from header_band_heights[OF h, of no_fonts]
  show ?thesis by (simp add: int_times_def)
qed

text \<open>
  C3 as first stated does not hold: on the 1290 by 2796 canvas the header band of the analysis view is 279
  pixels high, while 12% of 2796 is 335.52 (335 truncated).
\<close>

theorem header_is_not_12_percent_in_analysis:
  "on_result (header_height_of ''analysis'') (create_screenshot_analysis no_fonts 1290 2796)
     = Inr 279
   \<and> int_times 2796 12 100 = 335
   \<and> (279::int) * 100 \<noteq> 12 * 2796"
proof -
  have h: "(0::int) \<le> 1290" "(0::int) \<le> 2796" by simp_all
  have "on_result (header_band ''analysis'') (create_screenshot_analysis no_fonts 1290 2796)
           = Inr (Rectangle (0, int_times 2796 6 100, 1290,
                             int_times 2796 6 100 + int_times 2796 1 10) COLORS_white)"
    using keeps_header_band[OF analysis_header[OF h, of no_fonts], of "''analysis''"]
    by (simp add: header_band_index_def)
  from on_result_header_height[OF this]
  show ?thesis by (simp add: int_times_def)
qed

text \<open>
  C8. Under the same font environment, the same view identifier at the same width and height
  gives the same result, image or exception, call for call; so does the whole rendering loop
  of \<^verbatim>\<open>main\<close>. The result depends on the environment only through the four candidate font
  paths, the default font and the text measurements.
\<close>

theorem rendering_is_deterministic:
  fixes F F' :: "'f fonts"
  assumes env: "same_font_env F F'"
      and v1: "(view_key, view_name, view_func) \<in> set screenshot_views"
      and v2: "(view_key, view_name', view_func') \<in> set screenshot_views"
  shows "view_func F width height = view_func' F' width height
       \<and> main_screenshots F = main_screenshots F'"
proof -
  have same: "view_func' = view_func"
    using v1 v2 by (auto simp: screenshot_views_def)
  have a: "view_func F width height = view_func F' width height"
    using v1 same_font_env_views[OF env, of width height] by (auto simp: screenshot_views_def)
  have b: "main_screenshots F = main_screenshots F'"
    unfolding main_screenshots_def
    by (rule for_each_cong_on) (rule same_font_env_render_device[OF env])
  from a b same show ?thesis by simp
qed

theorem rendering_is_deterministic_witness:
  "create_screenshot_chart no_fonts 1290 2796 = create_screenshot_chart dejavu_fonts 1290 2796
   \<and> truetype no_fonts ''/usr/share/fonts/truetype/dejavu/DejaVuSans.ttf'' 32
       \<noteq> truetype dejavu_fonts ''/usr/share/fonts/truetype/dejavu/DejaVuSans.ttf'' 32"
proof -
  have env: "same_font_env no_fonts dejavu_fonts"
    by (auto simp: same_font_env_def no_fonts_def dejavu_fonts_def font_candidates_def)
  have v: "(''chart'', ''History & Charts'', create_screenshot_chart) \<in> set screenshot_views"
    by (simp add: screenshot_views_def)
  have d: "truetype no_fonts ''/usr/share/fonts/truetype/dejavu/DejaVuSans.ttf'' 32
       \<noteq> truetype dejavu_fonts ''/usr/share/fonts/truetype/dejavu/DejaVuSans.ttf'' 32"
    by (simp add: no_fonts_def dejavu_fonts_def)
  from rendering_is_deterministic[OF env v v, of 1290 2796] d
  show ?thesis by blast
qed


end
